theory Spec2Isabelle
  imports Complex_Main "HOL-Library.AList" "HOL-Library.Sublist" "HOL-Library.Multiset"
begin

section \<open>JavaScript numbers\<close>

text \<open>
  The engine in \<^verbatim>\<open>static/js/skyrfi.js\<close> computes with JavaScript Numbers. A finite
  Number is kept as the real it denotes (rounding, overflow and the sign of zero are
  left out); the two infinities and NaN are values of their own, since \<^verbatim>\<open>parseFloat\<close>
  and arithmetic on absent array elements produce them and every comparison with NaN
  is false.
\<close>

datatype jsnum = Num real | PInf | NInf | NaN

fun js_neg :: "jsnum \<Rightarrow> jsnum" where
  "js_neg (Num x) = Num (- x)"
| "js_neg PInf = NInf"
| "js_neg NInf = PInf"
| "js_neg NaN = NaN"

fun js_add :: "jsnum \<Rightarrow> jsnum \<Rightarrow> jsnum" where
  "js_add (Num x) (Num y) = Num (x + y)"
| "js_add NaN b = NaN"
| "js_add a NaN = NaN"
| "js_add PInf NInf = NaN"
| "js_add NInf PInf = NaN"
| "js_add PInf b = PInf"
| "js_add a PInf = PInf"
| "js_add NInf b = NInf"
| "js_add a NInf = NInf"

definition js_sub :: "jsnum \<Rightarrow> jsnum \<Rightarrow> jsnum" where
  "js_sub a b = js_add a (js_neg b)"

fun js_negative :: "jsnum \<Rightarrow> bool" where
  "js_negative (Num x) = (x < 0)"
| "js_negative NInf = True"
| "js_negative PInf = False"
| "js_negative NaN = False"

fun js_mul :: "jsnum \<Rightarrow> jsnum \<Rightarrow> jsnum" where
  "js_mul (Num x) (Num y) = Num (x * y)"
| "js_mul NaN b = NaN"
| "js_mul a NaN = NaN"
| "js_mul a b =
     (if a = Num 0 \<or> b = Num 0 then NaN
      else if js_negative a = js_negative b then PInf else NInf)"

text \<open>Division by a zero yields an infinity or NaN, never an exception.\<close>

fun js_div :: "jsnum \<Rightarrow> jsnum \<Rightarrow> jsnum" where
  "js_div (Num x) (Num y) =
     (if y \<noteq> 0 then Num (x / y)
      else if x = 0 then NaN else if 0 < x then PInf else NInf)"
| "js_div NaN b = NaN"
| "js_div a NaN = NaN"
| "js_div (Num x) b = Num 0"
| "js_div a (Num y) = (if js_negative a = (y < 0) then PInf else NInf)"
| "js_div a b = NaN"

text \<open>
  The remainder operator \<^verbatim>\<open>%\<close> truncates its quotient towards zero, so the result
  has the sign of the dividend.
\<close>

definition js_trunc :: "real \<Rightarrow> int" where
  "js_trunc x = (if 0 \<le> x then \<lfloor>x\<rfloor> else \<lceil>x\<rceil>)"

definition fmod :: "real \<Rightarrow> real \<Rightarrow> real" where
  "fmod x y = x - y * of_int (js_trunc (x / y))"

fun js_rem :: "jsnum \<Rightarrow> jsnum \<Rightarrow> jsnum" where
  "js_rem (Num x) (Num y) = (if y = 0 then NaN else Num (fmod x y))"
| "js_rem (Num x) PInf = Num x"
| "js_rem (Num x) NInf = Num x"
| "js_rem a b = NaN"

fun js_lt :: "jsnum \<Rightarrow> jsnum \<Rightarrow> bool" where
  "js_lt (Num x) (Num y) = (x < y)"
| "js_lt NaN b = False"
| "js_lt a NaN = False"
| "js_lt a NInf = False"
| "js_lt PInf b = False"
| "js_lt a b = True"

definition js_gt :: "jsnum \<Rightarrow> jsnum \<Rightarrow> bool" where
  "js_gt a b = js_lt b a"

text \<open>
  \<^verbatim>\<open>x >>> 1\<close> converts \<open>x\<close> to an unsigned 32-bit integer and shifts it right by one.
\<close>

definition ushr1 :: "int \<Rightarrow> int" where
  "ushr1 x = (x mod 2 ^ 32) div 2"

text \<open>
  Reading an array of Numbers at an index. Outside the array the read yields
  \<^verbatim>\<open>undefined\<close>, which every use below (a comparison, a subtraction, the limit
  returned to a comparison) converts to NaN.
\<close>

definition num_at :: "jsnum list \<Rightarrow> int \<Rightarrow> jsnum" where
  "num_at xs i = (if 0 \<le> i \<and> i < int (length xs) then xs ! nat i else NaN)"

section \<open>HorizonModel: the occlusion lookup\<close>

text \<open>\<^verbatim>\<open>SK_STATE.horizon\<close>: two parallel arrays.\<close>

record profile =
  az :: "jsnum list"
  alt :: "jsnum list"

text \<open>
  The binary search of \<^verbatim>\<open>getHorizonLimit\<close>:
  \<^verbatim>\<open>while (l <= r) { let m = (l + r) >>> 1; if (h.az[m] < az) l = m + 1; else r = m - 1; }\<close>
  It yields the final \<open>(l, r)\<close>; not leaving the loop is the value \<open>None\<close>.
\<close>

partial_function (option) bsearch :: "jsnum list \<Rightarrow> jsnum \<Rightarrow> int \<Rightarrow> int \<Rightarrow> (int \<times> int) option" where
  "bsearch azs a l r =
     (if l \<le> r then
        (if js_lt (num_at azs (ushr1 (l + r))) a
         then bsearch azs a (ushr1 (l + r) + 1) r
         else bsearch azs a l (ushr1 (l + r) - 1))
      else Some (l, r))"

definition getHorizonLimit :: "profile \<Rightarrow> jsnum \<Rightarrow> jsnum option" where
  "getHorizonLimit h azDeg =
     (if length (az h) = 0 then Some (Num (- 5))
      else
        let a = js_rem (js_add (js_rem azDeg (Num 360)) (Num 360)) (Num 360) in
        case bsearch (az h) a 0 (int (length (az h)) - 1) of
          None \<Rightarrow> None
        | Some (l, r) \<Rightarrow>
            let i1 = (if r < 0 then int (length (az h)) - 1 else r);
                i2 = (if l \<ge> int (length (az h)) then 0 else l);
                az1 = num_at (az h) i1; alt1 = num_at (alt h) i1;
                az2 = num_at (az h) i2; alt2 = num_at (alt h) i2;
                run = js_rem (js_add (js_sub az2 az1) (Num 360)) (Num 360)
            in if run = Num 0 then Some alt1
               else Some (js_add alt1
                      (js_mul (js_div (js_sub alt2 alt1) run)
                         (js_rem (js_add (js_sub a az1) (Num 360)) (Num 360)))))"

text \<open>
  The lookup as the specification words it, over a profile of finite samples: the
  query normalised into \<open>[0, 360)\<close>, the insertion point of the normalised query in
  the sorted azimuths, the bracketing pair with the wrap at both ends, and the linear
  interpolation over the run taken modulo 360.
\<close>

definition norm360 :: "real \<Rightarrow> real" where
  "norm360 q = fmod (fmod q 360 + 360) 360"

definition insertion_point :: "real list \<Rightarrow> real \<Rightarrow> nat" where
  "insertion_point azs a = length (filter (\<lambda>x. x < a) azs)"

definition lower_index :: "real list \<Rightarrow> real \<Rightarrow> nat" where
  "lower_index azs a =
     (if insertion_point azs a = 0 then length azs - 1 else insertion_point azs a - 1)"

definition upper_index :: "real list \<Rightarrow> real \<Rightarrow> nat" where
  "upper_index azs a =
     (if insertion_point azs a \<ge> length azs then 0 else insertion_point azs a)"

definition circular_run :: "real list \<Rightarrow> real \<Rightarrow> real" where
  "circular_run azs a = fmod (azs ! upper_index azs a - azs ! lower_index azs a + 360) 360"

definition horizon_interp :: "real list \<Rightarrow> real list \<Rightarrow> real \<Rightarrow> real" where
  "horizon_interp azs alts q =
     (let a = norm360 q; i1 = lower_index azs a; i2 = upper_index azs a
      in if circular_run azs a = 0 then alts ! i1
         else alts ! i1
              + (alts ! i2 - alts ! i1) / circular_run azs a
                * fmod (a - azs ! i1 + 360) 360)"


section \<open>Strings\<close>

text \<open>
  Strings are byte strings. \<^verbatim>\<open>String.prototype.split\<close> with a one-character separator
  yields one piece more than there are separators (the empty string yields one empty
  piece); \<^verbatim>\<open>trim\<close> strips white space and line terminators from both ends (the ASCII
  ones here).
\<close>

fun split_on :: "char \<Rightarrow> string \<Rightarrow> string list" where
  "split_on c [] = [[]]"
| "split_on c (x # xs) =
     (if x = c then [] # split_on c xs
      else (case split_on c xs of [] \<Rightarrow> [[x]] | y # ys \<Rightarrow> (x # y) # ys))"

definition is_ws :: "char \<Rightarrow> bool" where
  "is_ws c = (c \<in> set [CHR 0x09, CHR 0x0A, CHR 0x0B, CHR 0x0C, CHR 0x0D, CHR '' ''])"

definition trim :: "string \<Rightarrow> string" where
  "trim s = rev (dropWhile is_ws (rev (dropWhile is_ws s)))"

definition is_digit :: "char \<Rightarrow> bool" where
  "is_digit c = (c \<in> set ''0123456789'')"

definition digits_val :: "string \<Rightarrow> nat" where
  "digits_val ds = foldl (\<lambda>n c. 10 * n + (of_char c - 48)) 0 ds"

text \<open>
  \<^verbatim>\<open>parseFloat\<close>, a builtin of the language: leading white space is skipped, then the
  longest prefix that is a decimal literal (sign, \<^verbatim>\<open>Infinity\<close> or digits with an
  optional fraction and exponent) gives the value; when no prefix is a literal the
  result is NaN.
\<close>

definition exponent_part :: "string \<Rightarrow> int" where
  "exponent_part r =
     (case r of
        [] \<Rightarrow> 0
      | c # r1 \<Rightarrow>
          if c = CHR ''e'' \<or> c = CHR ''E'' then
            (case r1 of
               [] \<Rightarrow> 0
             | d # r2 \<Rightarrow>
                 if d = CHR ''-'' then
                   (if takeWhile is_digit r2 = [] then 0
                    else - int (digits_val (takeWhile is_digit r2)))
                 else if d = CHR ''+'' then int (digits_val (takeWhile is_digit r2))
                 else int (digits_val (takeWhile is_digit r1)))
          else 0)"

definition scale10 :: "real \<Rightarrow> int \<Rightarrow> real" where
  "scale10 m e = (if 0 \<le> e then m * 10 ^ nat e else m / 10 ^ nat (- e))"

definition unsigned_literal :: "string \<Rightarrow> jsnum" where
  "unsigned_literal u =
     (if prefix ''Infinity'' u then PInf
      else
        let ds = takeWhile is_digit u; r1 = dropWhile is_digit u;
            fs = (case r1 of [] \<Rightarrow> [] | c # r \<Rightarrow> if c = CHR ''.'' then takeWhile is_digit r else []);
            r2 = (case r1 of [] \<Rightarrow> [] | c # r \<Rightarrow> if c = CHR ''.'' then dropWhile is_digit r else r1)
        in if ds = [] \<and> fs = [] then NaN
           else Num (scale10 (real (digits_val ds) + real (digits_val fs) / 10 ^ length fs)
                       (exponent_part r2)))"

definition parseFloat :: "string \<Rightarrow> jsnum" where
  "parseFloat s =
     (case dropWhile is_ws s of
        [] \<Rightarrow> NaN
      | c # r \<Rightarrow>
          if c = CHR ''-'' then js_neg (unsigned_literal r)
          else if c = CHR ''+'' then unsigned_literal r
          else unsigned_literal (c # r))"

section \<open>Shared state\<close>

text \<open>
  Errors a \<^verbatim>\<open>try\<close> block of the engine can catch: a rejected network fetch, a method
  call on \<^verbatim>\<open>undefined\<close>, and an exception of the propagator library.
\<close>

datatype error = NetworkError | TypeError | LibraryError

text \<open>
  A catalog entry: the propagator's record (an opaque handle here) with the
  \<^verbatim>\<open>name\<close> and \<^verbatim>\<open>group\<close> the engine attaches.
\<close>

record 'h sat =
  name :: string
  group :: string
  satrec :: 'h

text \<open>
  Values of the altitude fields of the aircraft feed, which are numbers or text when
  present.
\<close>

datatype jsval = Undefined | Number real | Str string

fun truthy :: "jsval \<Rightarrow> bool" where
  "truthy Undefined = False"
| "truthy (Number x) = (x \<noteq> 0)"
| "truthy (Str s) = (s \<noteq> [])"

definition js_or :: "jsval \<Rightarrow> jsval \<Rightarrow> jsval" where
  "js_or a b = (if truthy a then a else b)"

text \<open>
  One record of the aircraft snapshot (\<^verbatim>\<open>data.ac[i]\<close>). An absent field is \<open>None\<close>;
  the identifiers are text and the coordinates numbers when present.
\<close>

record ac_record =
  ac_hex :: "string option"
  ac_flight :: "string option"
  ac_r :: "string option"
  ac_lat :: "real option"
  ac_lon :: "real option"
  ac_alt_geom :: jsval
  ac_alt_baro :: jsval

text \<open>A tracked aircraft, one value of \<^verbatim>\<open>SK_STATE.planes\<close>.\<close>

record plane =
  hex :: "string option"
  callsign :: "string option"
  lat :: "real option"
  lon :: "real option"
  alt_ft :: jsval
  last_update :: int

text \<open>
  \<^verbatim>\<open>SK_STATE\<close>. The object \<^verbatim>\<open>planes\<close> is kept as its list of properties in insertion
  order, with distinct keys.
\<close>

record 'h sk_state =
  satRecords :: "'h sat list"
  planes :: "(string \<times> plane) list"
  horizon :: profile
  plotInitialized :: bool

definition TLE_FETCH_MS :: int where
  "TLE_FETCH_MS = 3 * 60 * 60 * 1000"

definition PLANE_FETCH_MS :: int where
  "PLANE_FETCH_MS = 1000"

section \<open>TimedCache\<close>

text \<open>
  \<^verbatim>\<open>localStorage\<close>, as far as the cache helpers see it. A stored string is kept as what
  \<^verbatim>\<open>JSON.parse\<close> makes of it: \<open>Entry ts data\<close> for the envelope
  \<^verbatim>\<open>{ts, data}\<close> that the helpers write, \<open>Corrupt\<close> for every other string (one
  that is empty, does not parse, or parses to a value without a usable \<^verbatim>\<open>ts\<close>).
  \<open>writable\<close> is false when \<^verbatim>\<open>setItem\<close> throws (quota exceeded, storage disabled).
\<close>

datatype 'p entry = Corrupt | Entry int 'p

record 'p storage =
  items :: "string \<Rightarrow> 'p entry option"
  writable :: bool

text \<open>
  The first \<^verbatim>\<open>try\<close> block of \<^verbatim>\<open>cachedFetchText\<close> and \<^verbatim>\<open>cachedFetchJson\<close>:
  \<^verbatim>\<open>const raw = localStorage.getItem(storageKey);
  if (raw) { const obj = JSON.parse(raw); if (now - obj.ts < ttl) return obj.data; }\<close>
  with every exception swallowed by the \<^verbatim>\<open>catch\<close>.
\<close>

definition cacheRead :: "int \<Rightarrow> 'p storage \<Rightarrow> string \<Rightarrow> int \<Rightarrow> 'p option" where
  "cacheRead now st storageKey ttl =
     (case items st storageKey of
        None \<Rightarrow> None
      | Some Corrupt \<Rightarrow> None
      | Some (Entry ts d) \<Rightarrow> if now - ts < ttl then Some d else None)"

text \<open>
  The second \<^verbatim>\<open>try\<close> block:
  \<^verbatim>\<open>try { localStorage.setItem(storageKey, JSON.stringify({ ts: now, data: text })); } catch (e) {}\<close>
\<close>

definition cacheWrite :: "int \<Rightarrow> 'p storage \<Rightarrow> string \<Rightarrow> 'p \<Rightarrow> 'p storage" where
  "cacheWrite now st storageKey v =
     (if writable st then st\<lparr>items := (items st)(storageKey \<mapsto> Entry now v)\<rparr> else st)"

text \<open>
  \<open>net\<close> is the outcome of \<^verbatim>\<open>fetch(url)\<close> followed by \<^verbatim>\<open>r.text()\<close> (or
  \<^verbatim>\<open>r.json()\<close>), looked at only after a miss; a rejection is not caught here.
\<close>

definition cachedFetchText ::
  "int \<Rightarrow> string storage \<Rightarrow> error + string \<Rightarrow> string \<Rightarrow> int \<Rightarrow> (error + string) \<times> string storage" where
  "cachedFetchText now st net storageKey ttl =
     (case cacheRead now st storageKey ttl of
        Some d \<Rightarrow> (Inr d, st)
      | None \<Rightarrow>
          (case net of
             Inl e \<Rightarrow> (Inl e, st)
           | Inr text \<Rightarrow> (Inr text, cacheWrite now st storageKey text)))"

definition cachedFetchJson ::
  "int \<Rightarrow> 'j storage \<Rightarrow> error + 'j \<Rightarrow> string \<Rightarrow> int \<Rightarrow> (error + 'j) \<times> 'j storage" where
  "cachedFetchJson now st net storageKey ttl =
     (case cacheRead now st storageKey ttl of
        Some d \<Rightarrow> (Inr d, st)
      | None \<Rightarrow>
          (case net of
             Inl e \<Rightarrow> (Inl e, st)
           | Inr data \<Rightarrow> (Inr data, cacheWrite now st storageKey data)))"


section \<open>FeedFetchers\<close>

subsection \<open>Terrain profile\<close>

text \<open>
  The loop of \<^verbatim>\<open>parseHorizonCsv\<close> over the lines after the first: a line with at
  least three comma-separated fields pushes \<^verbatim>\<open>parseFloat(p[1])\<close> and
  \<^verbatim>\<open>parseFloat(p[2])\<close> onto the two arrays, kept here as one list of pairs.
\<close>

fun csv_rows :: "string list \<Rightarrow> (jsnum \<times> jsnum) list" where
  "csv_rows [] = []"
| "csv_rows (row # rows) =
     (if length (split_on CHR '','' row) \<ge> 3
      then (parseFloat (split_on CHR '','' row ! 1), parseFloat (split_on CHR '','' row ! 2)) # csv_rows rows
      else csv_rows rows)"

text \<open>
  \<^verbatim>\<open>.sort((a, b) => a.a - b.a)\<close>. The builtin sort is stable and moves \<open>x\<close> behind
  \<open>y\<close> only when the comparator is positive (a NaN result counts as zero), which for
  a consistent comparator fixes the result; insertion from the right computes it. With
  NaN among the keys the comparator is not consistent and the language leaves the order
  to the engine.
\<close>

fun sort_insert :: "jsnum \<times> jsnum \<Rightarrow> (jsnum \<times> jsnum) list \<Rightarrow> (jsnum \<times> jsnum) list" where
  "sort_insert x [] = [x]"
| "sort_insert x (y # ys) =
     (if js_gt (js_sub (fst x) (fst y)) (Num 0) then y # sort_insert x ys else x # y # ys)"

definition sort_by_az :: "(jsnum \<times> jsnum) list \<Rightarrow> (jsnum \<times> jsnum) list" where
  "sort_by_az xs = foldr sort_insert xs []"

definition parseHorizonCsv :: "string \<Rightarrow> 'h sk_state \<Rightarrow> 'h sk_state" where
  "parseHorizonCsv text st =
     (let c = sort_by_az (csv_rows (drop 1 (split_on CHR 0x0A text)))
      in st\<lparr>horizon := \<lparr>az = map fst c, alt = map snd c\<rparr>\<rparr>)"

subsection \<open>Orbital catalog\<close>

definition getGroup :: "string \<Rightarrow> string" where
  "getGroup nm =
     (if sublist ''STARLINK'' nm then ''STARLINK''
      else if sublist ''MUOS'' nm then ''MUOS''
      else if sublist ''GPS'' nm then ''GPS''
      else if sublist ''ONEWEB'' nm then ''ONEWEB''
      else ''OTHER'')"

text \<open>
  The loop of \<^verbatim>\<open>fetchTLEs\<close>, \<^verbatim>\<open>for (let i = 0; i < lines.length; i += 3)\<close>, over the
  lines from index \<open>i\<close> on, with the records pushed so far. A non-empty name line
  reads the two lines after it: \<^verbatim>\<open>lines[i+1].trim()\<close> or \<^verbatim>\<open>lines[i+2].trim()\<close> on a
  line past the end is a TypeError, and \<open>twoline2satrec\<close> (the propagator library's
  parser, a parameter) may throw. The result is the catalog as the exception leaves it,
  with the exception if there was one. The last equation is the end of the text: a
  name line with fewer than two lines after it.
\<close>

fun tle_loop ::
  "(string \<Rightarrow> string \<Rightarrow> error + 'h) \<Rightarrow> string list \<Rightarrow> 'h sat list \<Rightarrow> 'h sat list \<times> error option" where
  "tle_loop twoline2satrec (n # l1 # l2 # rest) acc =
     (if n = [] then tle_loop twoline2satrec rest acc
      else (case twoline2satrec (trim l1) (trim l2) of
              Inl e \<Rightarrow> (acc, Some e)
            | Inr h \<Rightarrow>
                tle_loop twoline2satrec rest
                  (acc @ [\<lparr>name = trim n, group = getGroup (trim n), satrec = h\<rparr>])))"
| "tle_loop twoline2satrec [] acc = (acc, None)"
| "tle_loop twoline2satrec (n # short) acc =
     (if n = [] then (acc, None) else (acc, Some TypeError))"

text \<open>
  \<open>net\<close> is the outcome of the network retrieval of the catalog text. The assignment
  \<^verbatim>\<open>SK_STATE.satRecords = []\<close> and the loop run after the \<^verbatim>\<open>await\<close> without
  suspending; the \<^verbatim>\<open>catch\<close> logs the exception and keeps the state as it is then.
\<close>

definition fetchTLEs ::
  "(string \<Rightarrow> string \<Rightarrow> error + 'h) \<Rightarrow> int \<Rightarrow> string storage \<Rightarrow> error + string
     \<Rightarrow> 'h sk_state \<Rightarrow> 'h sk_state \<times> string storage" where
  "fetchTLEs twoline2satrec now store net st =
     (case cachedFetchText now store net ''tles_active'' TLE_FETCH_MS of
        (Inl e, store') \<Rightarrow> (st, store')
      | (Inr text, store') \<Rightarrow>
          (st\<lparr>satRecords := fst (tle_loop twoline2satrec (split_on CHR 0x0A text) [])\<rparr>, store'))"

subsection \<open>Aircraft\<close>

text \<open>
  \<^verbatim>\<open>!p.lat\<close> on a coordinate: true when the field is absent and when it is zero.
\<close>

definition falsy_num :: "real option \<Rightarrow> bool" where
  "falsy_num x = (x = None \<or> x = Some 0)"

definition truthy_str :: "string option \<Rightarrow> bool" where
  "truthy_str x = (x \<noteq> None \<and> x \<noteq> Some [])"

text \<open>The property key of \<^verbatim>\<open>SK_STATE.planes[hex]\<close>: an absent id is the key "undefined".\<close>

definition property_key :: "string option \<Rightarrow> string" where
  "property_key h = (case h of None \<Rightarrow> ''undefined'' | Some s \<Rightarrow> s)"

text \<open>
  The callback of \<^verbatim>\<open>data.ac.forEach\<close>, on the pair of \<^verbatim>\<open>SK_STATE.planes\<close> and
  \<^verbatim>\<open>validHexes\<close>.
\<close>

definition plane_of :: "int \<Rightarrow> ac_record \<Rightarrow> plane" where
  "plane_of now p =
     \<lparr>hex = ac_hex p,
      callsign = (if truthy_str (ac_flight p) then map_option trim (ac_flight p)
                  else if truthy_str (ac_r p) then ac_r p else ac_hex p),
      lat = ac_lat p,
      lon = ac_lon p,
      alt_ft = js_or (js_or (ac_alt_geom p) (ac_alt_baro p)) (Number 0),
      last_update = now\<rparr>"

definition upsert_plane ::
  "int \<Rightarrow> ac_record \<Rightarrow> (string \<times> plane) list \<times> string option set
     \<Rightarrow> (string \<times> plane) list \<times> string option set" where
  "upsert_plane now p s =
     (if falsy_num (ac_lat p) \<or> falsy_num (ac_lon p) then s
      else (AList.update (property_key (ac_hex p)) (plane_of now p) (fst s),
            insert (ac_hex p) (snd s)))"

text \<open>
  The cleanup, \<^verbatim>\<open>Object.keys(SK_STATE.planes).forEach(k => ...)\<close>: the keys are taken
  once, and each key deletes at most its own property.
\<close>

definition cleanup_key ::
  "int \<Rightarrow> string option set \<Rightarrow> string \<Rightarrow> (string \<times> plane) list \<Rightarrow> (string \<times> plane) list" where
  "cleanup_key now validHexes k ps =
     (case map_of ps k of
        None \<Rightarrow> ps
      | Some p \<Rightarrow>
          if Some k \<notin> validHexes \<and> now - last_update p > 15000 then AList.delete k ps else ps)"

definition cleanup ::
  "int \<Rightarrow> string option set \<Rightarrow> (string \<times> plane) list \<Rightarrow> (string \<times> plane) list" where
  "cleanup now validHexes ps = fold (cleanup_key now validHexes) (map fst ps) ps"

text \<open>The snapshot: \<^verbatim>\<open>data.ac\<close> is \<open>None\<close> when absent.\<close>

record snapshot =
  ac :: "ac_record list option"

text \<open>
  \<open>now_fetch\<close> is the clock read inside \<^verbatim>\<open>cachedFetchJson\<close>, \<open>now\<close> the one read
  after the \<^verbatim>\<open>await\<close>. A rejected fetch skips the upserts and the cleanup.
\<close>

definition fetchPlanes ::
  "int \<Rightarrow> int \<Rightarrow> snapshot storage \<Rightarrow> error + snapshot \<Rightarrow> string
     \<Rightarrow> 'h sk_state \<Rightarrow> 'h sk_state \<times> snapshot storage" where
  "fetchPlanes now_fetch now store net storageKey st =
     (case cachedFetchJson now_fetch store net storageKey PLANE_FETCH_MS of
        (Inl e, store') \<Rightarrow> (st, store')
      | (Inr data, store') \<Rightarrow>
          (let s = fold (upsert_plane now) (case ac data of None \<Rightarrow> [] | Some recs \<Rightarrow> recs)
                     (planes st, {})
           in (st\<lparr>planes := cleanup now (snd s) (fst s)\<rparr>, store')))"


section \<open>VisibilityEngine\<close>

text \<open>
  The look angles the propagator library returns, in radians, and one entry of the
  lists handed to the renderer.
\<close>

record look =
  azimuth :: jsnum
  elevation :: jsnum
  rangeSat :: jsnum

record vis_obj =
  vname :: "string option"
  vaz :: jsnum
  vel :: jsnum
  vdist :: jsnum
  vgroup :: string

text \<open>\<^verbatim>\<open>x * 180 / Math.PI\<close>\<close>

definition rad2deg :: "jsnum \<Rightarrow> jsnum" where
  "rad2deg x = js_div (js_mul x (Num 180)) (Num pi)"

text \<open>
  A \<^verbatim>\<open>forEach\<close> whose callback calls \<^verbatim>\<open>getHorizonLimit\<close>: the callbacks run in
  order on the accumulated lists and counters, and the loop does not return when one
  of them does not.
\<close>

fun for_each :: "('a \<Rightarrow> 's \<Rightarrow> 's option) \<Rightarrow> 'a list \<Rightarrow> 's \<Rightarrow> 's option" where
  "for_each f [] s = Some s"
| "for_each f (x # xs) s = (case f x s of None \<Rightarrow> None | Some s' \<Rightarrow> for_each f xs s')"

text \<open>
  The callback of \<^verbatim>\<open>SK_STATE.satRecords.forEach\<close> on \<open>(visSats, blockSats)\<close>.
  \<open>satLook s\<close> stands for the library calls on \<open>s\<close>: \<open>None\<close> when
  \<^verbatim>\<open>satellite.propagate(s, now).position\<close> is falsy, and otherwise
  \<^verbatim>\<open>ecfToLookAngles(obs, eciToEcf(pv.position, gmst))\<close>.
\<close>

definition sat_step ::
  "('h sat \<Rightarrow> look option) \<Rightarrow> profile \<Rightarrow> 'h sat \<Rightarrow> vis_obj list \<times> nat \<Rightarrow> (vis_obj list \<times> nat) option" where
  "sat_step satLook h s acc =
     (case satLook s of
        None \<Rightarrow> Some acc
      | Some lk \<Rightarrow>
          (case getHorizonLimit h (rad2deg (azimuth lk)) of
             None \<Rightarrow> None
           | Some lmt \<Rightarrow>
               if js_gt (rad2deg (elevation lk)) lmt
               then Some (fst acc @ [\<lparr>vname = Some (name s), vaz = rad2deg (azimuth lk),
                                      vel = rad2deg (elevation lk), vdist = rangeSat lk,
                                      vgroup = group s\<rparr>], snd acc)
               else if js_gt (rad2deg (elevation lk)) (Num (- 10)) then Some (fst acc, snd acc + 1)
               else Some acc))"

text \<open>
  The callback of \<^verbatim>\<open>Object.values(SK_STATE.planes).forEach\<close> on
  \<open>(visPlanes, blockPlanes)\<close>. \<open>planeLook p\<close> stands for
  \<^verbatim>\<open>ecfToLookAngles(obs, geodeticToEcf({longitude, latitude, height}))\<close> on the
  position of \<open>p\<close>.
\<close>

definition plane_step ::
  "(plane \<Rightarrow> look) \<Rightarrow> profile \<Rightarrow> plane \<Rightarrow> vis_obj list \<times> nat \<Rightarrow> (vis_obj list \<times> nat) option" where
  "plane_step planeLook h p acc =
     (case getHorizonLimit h (rad2deg (azimuth (planeLook p))) of
        None \<Rightarrow> None
      | Some lmt \<Rightarrow>
          if js_gt (rad2deg (elevation (planeLook p))) (js_sub lmt (Num 0.5))
          then Some (fst acc @ [\<lparr>vname = callsign p, vaz = rad2deg (azimuth (planeLook p)),
                                 vel = rad2deg (elevation (planeLook p)),
                                 vdist = rangeSat (planeLook p), vgroup = ''Aircraft''\<rparr>], snd acc)
          else Some (fst acc, snd acc + 1))"

text \<open>
  \<^verbatim>\<open>Object.values\<close>: the properties whose key is an array index (a canonical decimal
  numeral below \<open>2^32 - 1\<close>) come first, in ascending numeric order, then the others
  in insertion order.
\<close>

definition is_index_key :: "string \<Rightarrow> bool" where
  "is_index_key k =
     (k \<noteq> [] \<and> list_all is_digit k \<and> (k = ''0'' \<or> hd k \<noteq> CHR ''0'')
      \<and> digits_val k < 2 ^ 32 - 1)"

definition object_values :: "(string \<times> 'v) list \<Rightarrow> 'v list" where
  "object_values ps =
     map snd (sort_key (\<lambda>kv. digits_val (fst kv)) (filter (\<lambda>kv. is_index_key (fst kv)) ps)
              @ filter (\<lambda>kv. \<not> is_index_key (fst kv)) ps)"

text \<open>The outcome of one tick: the two lists and the two counters.\<close>

record tick =
  visSats :: "vis_obj list"
  visPlanes :: "vis_obj list"
  blockSats :: nat
  blockPlanes :: nat

definition updateMathLoop ::
  "('h sat \<Rightarrow> look option) \<Rightarrow> (plane \<Rightarrow> look) \<Rightarrow> 'h sk_state \<Rightarrow> tick option" where
  "updateMathLoop satLook planeLook st =
     (case for_each (sat_step satLook (horizon st)) (satRecords st) ([], 0) of
        None \<Rightarrow> None
      | Some sats \<Rightarrow>
          (case for_each (plane_step planeLook (horizon st)) (object_values (planes st)) ([], 0) of
             None \<Rightarrow> None
           | Some acs \<Rightarrow>
               Some \<lparr>visSats = fst sats, visPlanes = fst acs,
                     blockSats = snd sats, blockPlanes = snd acs\<rparr>))"

section \<open>The classification of the specification\<close>

text \<open>
  The outcomes the specification names for an object at a tick, and the rule it gives
  for each kind of object, on the elevation and the occlusion elevation in degrees.
\<close>

datatype outcome = Visible | Blocked | Dropped | Skipped

definition classify_sat :: "jsnum \<Rightarrow> jsnum \<Rightarrow> outcome" where
  "classify_sat el lmt =
     (if js_gt el lmt then Visible else if js_gt el (Num (- 10)) then Blocked else Dropped)"

definition classify_plane :: "jsnum \<Rightarrow> jsnum \<Rightarrow> outcome" where
  "classify_plane el lmt = (if js_gt el (js_sub lmt (Num 0.5)) then Visible else Blocked)"

definition sat_outcome :: "('h sat \<Rightarrow> look option) \<Rightarrow> profile \<Rightarrow> 'h sat \<Rightarrow> outcome" where
  "sat_outcome satLook h s =
     (case satLook s of
        None \<Rightarrow> Skipped
      | Some lk \<Rightarrow>
          (case getHorizonLimit h (rad2deg (azimuth lk)) of
             None \<Rightarrow> Skipped
           | Some lmt \<Rightarrow> classify_sat (rad2deg (elevation lk)) lmt))"

definition plane_outcome :: "(plane \<Rightarrow> look) \<Rightarrow> profile \<Rightarrow> plane \<Rightarrow> outcome" where
  "plane_outcome planeLook h p =
     (case getHorizonLimit h (rad2deg (azimuth (planeLook p))) of
        None \<Rightarrow> Skipped
      | Some lmt \<Rightarrow> classify_plane (rad2deg (elevation (planeLook p))) lmt)"

definition sat_obj :: "('h sat \<Rightarrow> look option) \<Rightarrow> 'h sat \<Rightarrow> vis_obj" where
  "sat_obj satLook s =
     (case satLook s of
        None \<Rightarrow> \<lparr>vname = Some (name s), vaz = NaN, vel = NaN, vdist = NaN, vgroup = group s\<rparr>
      | Some lk \<Rightarrow>
          \<lparr>vname = Some (name s), vaz = rad2deg (azimuth lk), vel = rad2deg (elevation lk),
           vdist = rangeSat lk, vgroup = group s\<rparr>)"

definition plane_obj :: "(plane \<Rightarrow> look) \<Rightarrow> plane \<Rightarrow> vis_obj" where
  "plane_obj planeLook p =
     \<lparr>vname = callsign p, vaz = rad2deg (azimuth (planeLook p)),
      vel = rad2deg (elevation (planeLook p)), vdist = rangeSat (planeLook p),
      vgroup = ''Aircraft''\<rparr>"

section \<open>Catalog triplets, as the specification words them\<close>

text \<open>
  A catalog text is a sequence of triplets: a name line and two element lines. A
  triplet is well formed for the parser \<open>t2s\<close> when its name line is not empty and
  \<open>t2s\<close> accepts its two element lines, and then it denotes one catalog entry.
\<close>

definition triplet_lines :: "(string \<times> string \<times> string) list \<Rightarrow> string list" where
  "triplet_lines ts = concat (map (\<lambda>(n, l1, l2). [n, l1, l2]) ts)"

definition well_formed_triplet ::
  "(string \<Rightarrow> string \<Rightarrow> error + 'h) \<Rightarrow> string \<times> string \<times> string \<Rightarrow> bool" where
  "well_formed_triplet t2s t =
     (case t of (n, l1, l2) \<Rightarrow> n \<noteq> [] \<and> \<not> isl (t2s (trim l1) (trim l2)))"

definition triplet_sat ::
  "(string \<Rightarrow> string \<Rightarrow> error + 'h) \<Rightarrow> string \<times> string \<times> string \<Rightarrow> 'h sat" where
  "triplet_sat t2s t =
     (case t of (n, l1, l2) \<Rightarrow>
        \<lparr>name = trim n, group = getGroup (trim n), satrec = projr (t2s (trim l1) (trim l2))\<rparr>)"

section \<open>The occlusion lookup is the interpolation of the specification\<close>

lemma fmod_nonneg:
  assumes "0 < y" "0 \<le> x"
  shows "0 \<le> fmod x y \<and> fmod x y < y"
proof -
  define k where "k = \<lfloor>x / y\<rfloor>"
  have q: "0 \<le> x / y" using assms by simp
  have t: "js_trunc (x / y) = k" using q by (simp add: js_trunc_def k_def)
  have yx: "y * (x / y) = x" using assms(1) by simp
  have a: "of_int k \<le> x / y" unfolding k_def by (rule of_int_floor_le)
  have b: "x / y < of_int k + 1" unfolding k_def by linarith
  have a': "y * of_int k \<le> x"
    using mult_left_mono[OF a, of y] assms(1) yx by simp
  have b': "x < y * (of_int k + 1)"
    using mult_strict_left_mono[OF b assms(1)] yx by simp
  show ?thesis using a' b' by (simp add: fmod_def t algebra_simps)
qed

lemma fmod_neg:
  assumes "0 < y" "x < 0"
  shows "- y < fmod x y \<and> fmod x y \<le> 0"
proof -
  define k where "k = \<lceil>x / y\<rceil>"
  have q: "x / y < 0" using assms by (simp add: divide_neg_pos)
  have t: "js_trunc (x / y) = k" using q by (simp add: js_trunc_def k_def)
  have yx: "y * (x / y) = x" using assms(1) by simp
  have a: "x / y \<le> of_int k" unfolding k_def by (rule le_of_int_ceiling)
  have b: "of_int k - 1 < x / y" unfolding k_def by linarith
  have a': "x \<le> y * of_int k"
    using mult_left_mono[OF a, of y] assms(1) yx by simp
  have b': "y * (of_int k - 1) < x"
    using mult_strict_left_mono[OF b assms(1)] yx by simp
  show ?thesis using a' b' by (simp add: fmod_def t algebra_simps)
qed

lemma norm360_range: "0 \<le> norm360 q \<and> norm360 q < 360"
proof -
  have "- 360 < fmod q 360"
    using fmod_nonneg[of 360 q] fmod_neg[of 360 q] by (cases "0 \<le> q") auto
  then have "0 \<le> fmod q 360 + 360" by simp
  then show ?thesis unfolding norm360_def using fmod_nonneg[of 360 "fmod q 360 + 360"] by simp
qed

lemma ushr1_half: "0 \<le> x \<Longrightarrow> x < 2 ^ 32 \<Longrightarrow> ushr1 x = x div 2"
  by (simp add: ushr1_def)

lemma length_filter_split:
  assumes "k \<le> length xs" "\<forall>i<k. P (xs ! i)" "\<forall>i. k \<le> i \<and> i < length xs \<longrightarrow> \<not> P (xs ! i)"
  shows "length (filter P xs) = k"
proof -
  have t: "filter P (take k xs) = take k xs"
    using assms by (auto simp: filter_id_conv in_set_conv_nth)
  have d: "filter P (drop k xs) = []"
    using assms by (auto simp: filter_empty_conv in_set_conv_nth)
  have "filter P xs = filter P (take k xs) @ filter P (drop k xs)"
    by (metis append_take_drop_id filter_append)
  then show ?thesis using t d assms(1) by simp
qed


lemma num_at_map_Num:
  "0 \<le> i \<Longrightarrow> i < int (length xs) \<Longrightarrow> num_at (map Num xs) i = Num (xs ! nat i)"
  by (simp add: num_at_def)

lemma bsearch_total:
  assumes "length azs < 2 ^ 31"
  shows "0 \<le> l \<Longrightarrow> r < int (length azs) \<Longrightarrow> \<exists>l' r'. bsearch azs a l r = Some (l', r')"
proof (induction "nat (r + 1 - l)" arbitrary: l r rule: less_induct)
  case less
  show ?case
  proof (cases "l \<le> r")
    case False
    then show ?thesis by (subst bsearch.simps) simp
  next
    case True
    have len: "int (length azs) < 2147483648" using assms by simp
    have "l + r < 4294967296" using True less.prems len by linarith
    then have bound: "0 \<le> l + r" "l + r < 2 ^ 32"
      using True less.prems by simp_all
    have m: "ushr1 (l + r) = (l + r) div 2" using bound by (rule ushr1_half)
    have mid: "l \<le> (l + r) div 2" "(l + r) div 2 \<le> r" using True by linarith+
    show ?thesis
    proof (cases "js_lt (num_at azs (ushr1 (l + r))) a")
      case True
      have "\<exists>l' r'. bsearch azs a ((l + r) div 2 + 1) r = Some (l', r')"
        using less.prems mid by (intro less.hyps) linarith+
      then show ?thesis using True \<open>l \<le> r\<close> m by (subst bsearch.simps) simp
    next
      case False
      have "\<exists>l' r'. bsearch azs a l ((l + r) div 2 - 1) = Some (l', r')"
        using less.prems mid by (intro less.hyps) linarith+
      then show ?thesis using False \<open>l \<le> r\<close> m by (subst bsearch.simps) simp
    qed
  qed
qed

lemma bsearch_insertion_point:
  assumes "sorted azs" "length azs < 2 ^ 31"
  shows "0 \<le> l \<Longrightarrow> r < int (length azs) \<Longrightarrow> l \<le> r + 1
    \<Longrightarrow> \<forall>i. int i < l \<longrightarrow> azs ! i < a
    \<Longrightarrow> \<forall>i. r < int i \<and> i < length azs \<longrightarrow> a \<le> azs ! i
    \<Longrightarrow> bsearch (map Num azs) (Num a) l r
        = Some (int (insertion_point azs a), int (insertion_point azs a) - 1)"
proof (induction "nat (r + 1 - l)" arbitrary: l r rule: less_induct)
  case less
  show ?case
  proof (cases "l \<le> r")
    case False
    then have lr: "l = r + 1" using less.prems by linarith
    have "length (filter (\<lambda>x. x < a) azs) = nat l"
    proof (rule length_filter_split)
      show "nat l \<le> length azs" using less.prems lr by linarith
      show "\<forall>i<nat l. azs ! i < a" using less.prems(4) by auto
      show "\<forall>i. nat l \<le> i \<and> i < length azs \<longrightarrow> \<not> azs ! i < a"
        using less.prems(5) less.prems(1) lr by (auto simp: not_less)
    qed
    then have "int (insertion_point azs a) = l"
      using less.prems(1) by (simp add: insertion_point_def)
    then show ?thesis using False lr by (subst bsearch.simps) simp
  next
    case True
    define m where "m = (l + r) div 2"
    have len: "int (length azs) < 2147483648" using assms by simp
    have "l + r < 4294967296" using True less.prems len by linarith
    then have bound: "0 \<le> l + r" "l + r < 2 ^ 32"
      using True less.prems by simp_all
    have m: "ushr1 (l + r) = m" unfolding m_def using bound by (rule ushr1_half)
    have mid: "l \<le> m" "m \<le> r" unfolding m_def using True by linarith+
    have at: "num_at (map Num azs) m = Num (azs ! nat m)"
      using mid less.prems by (intro num_at_map_Num) linarith+
    have mlen: "nat m < length azs" using mid less.prems by linarith
    show ?thesis
    proof (cases "azs ! nat m < a")
      case True
      have inv: "\<forall>i. int i < m + 1 \<longrightarrow> azs ! i < a"
      proof (intro allI impI)
        fix i assume "int i < m + 1"
        then have "i \<le> nat m" by linarith
        then have "azs ! i \<le> azs ! nat m" using assms(1) mlen by (simp add: sorted_nth_mono)
        then show "azs ! i < a" using True by linarith
      qed
      have "bsearch (map Num azs) (Num a) (m + 1) r
          = Some (int (insertion_point azs a), int (insertion_point azs a) - 1)"
        using less.prems mid inv by (intro less.hyps) linarith+
      then show ?thesis using True \<open>l \<le> r\<close> m at by (subst bsearch.simps) simp
    next
      case False
      have inv: "\<forall>i. m - 1 < int i \<and> i < length azs \<longrightarrow> a \<le> azs ! i"
      proof (intro allI impI)
        fix i assume h: "m - 1 < int i \<and> i < length azs"
        then have "nat m \<le> i" by linarith
        then have "azs ! nat m \<le> azs ! i" using assms(1) h by (simp add: sorted_nth_mono)
        then show "a \<le> azs ! i" using False by linarith
      qed
      have "bsearch (map Num azs) (Num a) l (m - 1)
          = Some (int (insertion_point azs a), int (insertion_point azs a) - 1)"
        using less.prems mid inv by (intro less.hyps) linarith+
      then show ?thesis using False \<open>l \<le> r\<close> m at by (subst bsearch.simps) simp
    qed
  qed
qed


lemma sorted_filter_less_take:
  "sorted xs \<Longrightarrow> filter (\<lambda>x. x < a) xs = take (length (filter (\<lambda>x. x < a) xs)) (xs :: real list)"
proof (induction xs)
  case Nil
  then show ?case by simp
next
  case (Cons x xs)
  show ?case
  proof (cases "x < a")
    case True
    then show ?thesis using Cons by simp
  next
    case False
    then have "\<forall>y\<in>set xs. \<not> y < a" using Cons.prems by auto
    then have "filter (\<lambda>x. x < a) xs = []" by (simp add: filter_empty_conv)
    then show ?thesis using False by simp
  qed
qed

lemma insertion_point_le: "insertion_point azs a \<le> length azs"
  by (simp add: insertion_point_def)

lemma insertion_point_below:
  assumes "sorted azs" "i < insertion_point azs a"
  shows "azs ! i < a"
proof -
  let ?f = "filter (\<lambda>x. x < a) azs"
  have "?f = take (length ?f) azs" by (rule sorted_filter_less_take[OF assms(1)])
  then have "?f ! i = take (length ?f) azs ! i" by simp
  then have "?f ! i = azs ! i" using assms(2) by (simp add: insertion_point_def)
  moreover have "?f ! i \<in> set ?f"
    using assms(2) unfolding insertion_point_def by (rule nth_mem)
  ultimately show ?thesis by simp
qed

lemma insertion_point_above:
  assumes "sorted azs" "insertion_point azs a \<le> i" "i < length azs"
  shows "a \<le> azs ! i"
proof -
  define k where "k = insertion_point azs a"
  let ?P = "\<lambda>x. x < a"
  have k: "length (filter ?P azs) = k" by (simp add: k_def insertion_point_def)
  have "filter ?P azs = take k azs"
    using sorted_filter_less_take[OF assms(1), of a] k by simp
  then have "filter ?P (filter ?P azs) = filter ?P (take k azs)" by simp
  then have tk: "filter ?P (take k azs) = filter ?P azs" by simp
  have "filter ?P (take k azs @ drop k azs) = filter ?P azs" by simp
  then have "filter ?P (take k azs) @ filter ?P (drop k azs) = filter ?P azs"
    by (simp only: filter_append)
  then have "filter ?P (drop k azs) = []" using tk by simp
  then have none: "\<forall>x\<in>set (drop k azs). \<not> x < a" by (simp add: filter_empty_conv)
  have "drop k azs ! (i - k) = azs ! i" using assms(2,3) by (simp add: k_def)
  moreover have "i - k < length (drop k azs)" using assms(2,3) by (simp add: k_def)
  ultimately have "azs ! i \<in> set (drop k azs)" by (metis nth_mem)
  then show ?thesis using none by auto
qed


lemma getHorizonLimit_found:
  assumes "az h \<noteq> []"
    and "js_rem (js_add (js_rem azDeg (Num 360)) (Num 360)) (Num 360) = a"
    and "bsearch (az h) a 0 (int (length (az h)) - 1) = Some (l, r)"
    and "(if r < 0 then int (length (az h)) - 1 else r) = i1"
    and "(if l \<ge> int (length (az h)) then 0 else l) = i2"
    and "js_rem (js_add (js_sub (num_at (az h) i2) (num_at (az h) i1)) (Num 360)) (Num 360) = run"
  shows "getHorizonLimit h azDeg =
     (if run = Num 0 then Some (num_at (alt h) i1)
      else Some (js_add (num_at (alt h) i1)
             (js_mul (js_div (js_sub (num_at (alt h) i2) (num_at (alt h) i1)) run)
                (js_rem (js_add (js_sub a (num_at (az h) i1)) (Num 360)) (Num 360)))))"
  unfolding getHorizonLimit_def Let_def assms(2) using assms(1)
  by (simp only: assms(3) option.case prod.case assms(4) assms(5) assms(6) length_0_conv if_False)

lemma getHorizonLimit_sorted:
  assumes "azs \<noteq> []" "length alts = length azs" "sorted azs" "length azs < 2 ^ 31"
  shows "getHorizonLimit \<lparr>az = map Num azs, alt = map Num alts\<rparr> (Num q)
           = Some (Num (horizon_interp azs alts q))"
proof -
  define a where "a = norm360 q"
  define k where "k = insertion_point azs a"
  define n where "n = length azs"
  define h where "h = \<lparr>az = map Num azs, alt = map Num alts\<rparr>"
  have hz: "az h = map Num azs" "alt h = map Num alts" by (simp_all add: h_def)
  have n0: "0 < n" using assms(1) by (simp add: n_def)
  have kn: "k \<le> n" unfolding k_def n_def by (rule insertion_point_le)
  have norm: "js_rem (js_add (js_rem (Num q) (Num 360)) (Num 360)) (Num 360) = Num a"
    by (simp add: a_def norm360_def)
  have bs: "bsearch (map Num azs) (Num a) 0 (int n - 1) = Some (int k, int k - 1)"
    unfolding k_def n_def using assms(3,4)
    by (rule bsearch_insertion_point) (use assms(1) in auto)
  define i1 where "i1 = lower_index azs a"
  define i2 where "i2 = upper_index azs a"
  have nm: "int (n - 1) = int n - 1" using n0 by (simp add: of_nat_diff)
  have lo: "i1 = (if k = 0 then n - 1 else k - 1)"
    by (simp add: i1_def lower_index_def k_def n_def)
  have i1: "(if int k - 1 < 0 then int n - 1 else int k - 1) = int i1"
    using nm by (cases "k = 0") (simp_all add: lo of_nat_diff)
  have i2: "(if int k \<ge> int n then 0 else int k) = int i2"
    by (auto simp: i2_def upper_index_def k_def n_def)
  have r1: "i1 < n" using n0 kn by (auto simp: lo)
  have r2: "i2 < n" using n0 kn by (auto simp: i2_def upper_index_def k_def[symmetric] n_def[symmetric])
  have at: "num_at (map Num azs) (int i1) = Num (azs ! i1)"
       "num_at (map Num azs) (int i2) = Num (azs ! i2)"
       "num_at (map Num alts) (int i1) = Num (alts ! i1)"
       "num_at (map Num alts) (int i2) = Num (alts ! i2)"
    using r1 r2 assms(2) by (simp_all add: num_at_def n_def)
  have run: "js_rem (js_add (js_sub (Num (azs ! i2)) (Num (azs ! i1))) (Num 360)) (Num 360)
      = Num (circular_run azs a)"
    by (simp add: circular_run_def js_sub_def i1_def i2_def)
  have "getHorizonLimit h (Num q) =
     (if Num (circular_run azs a) = Num 0 then Some (num_at (alt h) (int i1))
      else Some (js_add (num_at (alt h) (int i1))
             (js_mul (js_div (js_sub (num_at (alt h) (int i2)) (num_at (alt h) (int i1))) (Num (circular_run azs a)))
                (js_rem (js_add (js_sub (Num a) (num_at (az h) (int i1))) (Num 360)) (Num 360)))))"
  proof (rule getHorizonLimit_found)
    show "az h \<noteq> []" using assms(1) by (simp add: hz)
    show "js_rem (js_add (js_rem (Num q) (Num 360)) (Num 360)) (Num 360) = Num a" by (rule norm)
    show "bsearch (az h) (Num a) 0 (int (length (az h)) - 1) = Some (int k, int k - 1)"
      using bs[unfolded n_def] by (simp only: hz length_map)
    show "(if int k - 1 < 0 then int (length (az h)) - 1 else int k - 1) = int i1"
      using i1[unfolded n_def] by (simp only: hz length_map)
    show "(if int (length (az h)) \<le> int k then 0 else int k) = int i2"
      using i2[unfolded n_def] by (simp only: hz length_map)
    show "js_rem (js_add (js_sub (num_at (az h) (int i2)) (num_at (az h) (int i1))) (Num 360)) (Num 360)
        = Num (circular_run azs a)"
      using run by (simp only: hz at)
  qed
  then have "getHorizonLimit h (Num q)
      = (if circular_run azs a = 0 then Some (Num (alts ! i1))
         else Some (Num (alts ! i1 + (alts ! i2 - alts ! i1) / circular_run azs a
                * fmod (a - azs ! i1 + 360) 360)))"
    by (simp add: hz at js_sub_def)
  then show ?thesis
    by (simp add: horizon_interp_def Let_def a_def[symmetric] i1_def i2_def h_def)
qed

text \<open>
  C1. On a loaded profile of finite samples, at least one and fewer than \<open>2^31\<close>
  (where the 32-bit shift of the search is exact), sorted by azimuth, and any query
  azimuth \<open>q\<close> (negative or beyond 360 included), \<open>getHorizonLimit\<close> returns, and
  what it returns is the interpolation the specification describes: the query is
  normalised into \<open>[0, 360)\<close>; the binary search finds the insertion point (every
  sample before it lies below the normalised query, every sample from it on does not);
  the bracketing pair wraps to the last and first sample when the insertion point is
  at either end; the elevation is interpolated linearly over the run taken modulo 360,
  and when that run is zero the lower sample's elevation is returned as it is, so the
  result is a finite number. For the flat profile at 0, 90, 180 and 270 degrees with
  elevation 2 the limit at 45 degrees is 2.
\<close>

theorem getHorizonLimit_interpolates:
  assumes "azs \<noteq> []" and "length alts = length azs" and "sorted azs"
    and "length azs < 2 ^ 31"
  shows "0 \<le> norm360 q \<and> norm360 q < 360
    \<and> getHorizonLimit \<lparr>az = map Num azs, alt = map Num alts\<rparr> (Num q)
        = Some (Num (horizon_interp azs alts q))
    \<and> (\<forall>i. i < insertion_point azs (norm360 q) \<longrightarrow> azs ! i < norm360 q)
    \<and> (\<forall>i. insertion_point azs (norm360 q) \<le> i \<and> i < length azs \<longrightarrow> norm360 q \<le> azs ! i)
    \<and> (insertion_point azs (norm360 q) = 0 \<or> insertion_point azs (norm360 q) = length azs
        \<longrightarrow> lower_index azs (norm360 q) = length azs - 1 \<and> upper_index azs (norm360 q) = 0)
    \<and> (0 < insertion_point azs (norm360 q) \<and> insertion_point azs (norm360 q) < length azs
        \<longrightarrow> upper_index azs (norm360 q) = lower_index azs (norm360 q) + 1)
    \<and> (circular_run azs (norm360 q) = 0
        \<longrightarrow> horizon_interp azs alts q = alts ! lower_index azs (norm360 q))
    \<and> getHorizonLimit \<lparr>az = [Num 0, Num 90, Num 180, Num 270], alt = [Num 2, Num 2, Num 2, Num 2]\<rparr>
          (Num 45) = Some (Num 2)"
proof -
  have range: "0 \<le> norm360 q \<and> norm360 q < 360" by (rule norm360_range)
  have code: "getHorizonLimit \<lparr>az = map Num azs, alt = map Num alts\<rparr> (Num q)
        = Some (Num (horizon_interp azs alts q))"
    using assms by (rule getHorizonLimit_sorted)
  have below: "\<forall>i. i < insertion_point azs (norm360 q) \<longrightarrow> azs ! i < norm360 q"
    using insertion_point_below[OF assms(3)] by blast
  have above: "\<forall>i. insertion_point azs (norm360 q) \<le> i \<and> i < length azs \<longrightarrow> norm360 q \<le> azs ! i"
    using insertion_point_above[OF assms(3)] by blast
  have wrap: "insertion_point azs (norm360 q) = 0 \<or> insertion_point azs (norm360 q) = length azs
        \<longrightarrow> lower_index azs (norm360 q) = length azs - 1 \<and> upper_index azs (norm360 q) = 0"
    using assms(1) by (auto simp: lower_index_def upper_index_def)
  have inner: "0 < insertion_point azs (norm360 q) \<and> insertion_point azs (norm360 q) < length azs
        \<longrightarrow> upper_index azs (norm360 q) = lower_index azs (norm360 q) + 1"
    by (auto simp: lower_index_def upper_index_def)
  have zero: "circular_run azs (norm360 q) = 0
        \<longrightarrow> horizon_interp azs alts q = alts ! lower_index azs (norm360 q)"
    by (simp add: horizon_interp_def Let_def)
  have flat: "getHorizonLimit \<lparr>az = [Num 0, Num 90, Num 180, Num 270], alt = [Num 2, Num 2, Num 2, Num 2]\<rparr>
          (Num 45) = Some (Num 2)"
    using getHorizonLimit_sorted[of "[0, 90, 180, 270]" "[2, 2, 2, 2]" 45]
    by (simp add: horizon_interp_def norm360_def fmod_def js_trunc_def circular_run_def
        lower_index_def upper_index_def insertion_point_def)
  show ?thesis using range code below above wrap inner zero flat by blast
qed

theorem getHorizonLimit_interpolates_witness:
  "getHorizonLimit \<lparr>az = [Num 10, Num 350], alt = [Num 4, Num 8]\<rparr> (Num (- 355)) = Some (Num 5)
   \<and> norm360 (- 355) = 5 \<and> insertion_point [10, 350] 5 = 0
   \<and> lower_index [10, 350] 5 = 1 \<and> upper_index [10, 350] 5 = 0
   \<and> circular_run [10, 350] 5 = 20
   \<and> getHorizonLimit \<lparr>az = [Num 0, Num 90, Num 180, Num 270], alt = [Num 1, Num 3, Num 2, Num 2]\<rparr>
        (Num 405) = Some (Num 2)
   \<and> norm360 405 = 45 \<and> insertion_point [0, 90, 180, 270] 45 = 1
   \<and> lower_index [0, 90, 180, 270] 45 = 0 \<and> upper_index [0, 90, 180, 270] 45 = 1
   \<and> getHorizonLimit \<lparr>az = [Num 123], alt = [Num 7]\<rparr> (Num 10) = Some (Num 7)
   \<and> circular_run [123] 10 = 0"
proof -
  have h: "[10, 350 :: real] \<noteq> []" "length [4, 8 :: real] = length [10, 350 :: real]"
    "sorted [10, 350 :: real]" "length [10, 350 :: real] < 2 ^ 31"
    by simp_all
  have g: "[0, 90, 180, 270 :: real] \<noteq> []"
    "length [1, 3, 2, 2 :: real] = length [0, 90, 180, 270 :: real]"
    "sorted [0, 90, 180, 270 :: real]" "length [0, 90, 180, 270 :: real] < 2 ^ 31"
    by simp_all
  have s: "[123 :: real] \<noteq> []" "length [7 :: real] = length [123 :: real]"
    "sorted [123 :: real]" "length [123 :: real] < 2 ^ 31"
    by simp_all
  have n: "norm360 (- 355) = 5" "norm360 405 = 45" "norm360 10 = 10"
    by (simp_all add: norm360_def fmod_def js_trunc_def)
  have v: "horizon_interp [10, 350] [4, 8] (- 355) = 5"
    by (simp add: horizon_interp_def n fmod_def js_trunc_def circular_run_def
        lower_index_def upper_index_def insertion_point_def)
  have v2: "horizon_interp [0, 90, 180, 270] [1, 3, 2, 2] 405 = 2"
    by (simp add: horizon_interp_def n fmod_def js_trunc_def circular_run_def
        lower_index_def upper_index_def insertion_point_def)
  have r0: "circular_run [123] 10 = 0"
    by (simp add: circular_run_def lower_index_def upper_index_def insertion_point_def
        fmod_def js_trunc_def)
  have w1: "getHorizonLimit \<lparr>az = [Num 10, Num 350], alt = [Num 4, Num 8]\<rparr> (Num (- 355)) = Some (Num 5)"
    using getHorizonLimit_interpolates[OF h, of "- 355"] v by simp
  have w2: "getHorizonLimit \<lparr>az = [Num 0, Num 90, Num 180, Num 270], alt = [Num 1, Num 3, Num 2, Num 2]\<rparr>
        (Num 405) = Some (Num 2)"
    using getHorizonLimit_interpolates[OF g, of 405] v2 by simp
  have "horizon_interp [123] [7] 10 = [7] ! lower_index [123] (norm360 10)"
    using getHorizonLimit_interpolates[OF s, of 10] r0 n by simp
  then have v3: "horizon_interp [123] [7] 10 = 7"
    by (simp add: n lower_index_def insertion_point_def)
  have w3: "getHorizonLimit \<lparr>az = [Num 123], alt = [Num 7]\<rparr> (Num 10) = Some (Num 7)"
    using getHorizonLimit_interpolates[OF s, of 10] v3 by simp
  have idx: "insertion_point [10, 350] 5 = 0" "lower_index [10, 350] 5 = 1" "upper_index [10, 350] 5 = 0"
      "circular_run [10, 350] 5 = 20" "insertion_point [0, 90, 180, 270] 45 = 1"
      "lower_index [0, 90, 180, 270] 45 = 0" "upper_index [0, 90, 180, 270] 45 = 1"
    by (simp_all add: circular_run_def lower_index_def upper_index_def insertion_point_def
        fmod_def js_trunc_def)
  show ?thesis using w1 w2 w3 n idx r0 by blast
qed

section \<open>The visibility engine sorts every object into one outcome\<close>

lemma getHorizonLimit_total:
  assumes "length (az h) < 2 ^ 31"
  shows "\<exists>v. getHorizonLimit h q = Some v"
proof (cases "az h = []")
  case True
  then show ?thesis by (simp add: getHorizonLimit_def)
next
  case False
  have "\<exists>l r. bsearch (az h) (js_rem (js_add (js_rem q (Num 360)) (Num 360)) (Num 360)) 0
      (int (length (az h)) - 1) = Some (l, r)"
    using assms by (rule bsearch_total) simp_all
  then obtain l r where "bsearch (az h) (js_rem (js_add (js_rem q (Num 360)) (Num 360)) (Num 360)) 0
      (int (length (az h)) - 1) = Some (l, r)"
    by blast
  then show ?thesis using False by (simp add: getHorizonLimit_def Let_def)
qed

lemma for_each_sat_step:
  assumes "length (az h) < 2 ^ 31"
  shows "for_each (sat_step satLook h) ss (vis, blk)
    = Some (vis @ map (sat_obj satLook) (filter (\<lambda>s. sat_outcome satLook h s = Visible) ss),
            blk + length (filter (\<lambda>s. sat_outcome satLook h s = Blocked) ss))"
proof (induction ss arbitrary: vis blk)
  case Nil
  then show ?case by simp
next
  case (Cons s ss)
  show ?case
  proof (cases "satLook s")
    case None
    then have "sat_step satLook h s (vis, blk) = Some (vis, blk)" by (simp add: sat_step_def)
    moreover have "sat_outcome satLook h s = Skipped" using None by (simp add: sat_outcome_def)
    ultimately show ?thesis using Cons.IH by simp
  next
    case (Some lk)
    obtain lmt where l: "getHorizonLimit h (rad2deg (azimuth lk)) = Some lmt"
      using getHorizonLimit_total[OF assms] by blast
    show ?thesis
      using Some l Cons.IH
      by (simp add: sat_step_def sat_outcome_def classify_sat_def sat_obj_def)
  qed
qed

lemma for_each_plane_step:
  assumes "length (az h) < 2 ^ 31"
  shows "for_each (plane_step planeLook h) ps (vis, blk)
    = Some (vis @ map (plane_obj planeLook) (filter (\<lambda>p. plane_outcome planeLook h p = Visible) ps),
            blk + length (filter (\<lambda>p. plane_outcome planeLook h p = Blocked) ps))"
proof (induction ps arbitrary: vis blk)
  case Nil
  then show ?case by simp
next
  case (Cons p ps)
  obtain lmt where l: "getHorizonLimit h (rad2deg (azimuth (planeLook p))) = Some lmt"
    using getHorizonLimit_total[OF assms] by blast
  show ?case
    using l Cons.IH
    by (simp add: plane_step_def plane_outcome_def classify_plane_def plane_obj_def)
qed

lemma length_object_values: "length (object_values ps) = length ps"
  by (simp add: object_values_def sum_length_filter_compl)

lemma plane_outcome_cases:
  assumes "length (az h) < 2 ^ 31"
  shows "plane_outcome planeLook h p = Visible \<or> plane_outcome planeLook h p = Blocked"
proof -
  obtain lmt where l: "getHorizonLimit h (rad2deg (azimuth (planeLook p))) = Some lmt"
    using getHorizonLimit_total[OF assms] by blast
  then show ?thesis by (simp add: plane_outcome_def classify_plane_def)
qed


lemma classify_sat_iff:
  "(classify_sat el lmt = Visible \<longleftrightarrow> js_gt el lmt)
   \<and> (classify_sat el lmt = Blocked \<longleftrightarrow> \<not> js_gt el lmt \<and> js_gt el (Num (- 10)))
   \<and> (classify_sat el lmt = Dropped \<longleftrightarrow> \<not> js_gt el lmt \<and> \<not> js_gt el (Num (- 10)))
   \<and> classify_sat el lmt \<noteq> Skipped"
  by (simp add: classify_sat_def)

text \<open>
  C7. With a profile of fewer than \<open>2^31\<close> samples, whatever they hold, a tick
  returns, and it sorts every orbital object into exactly one outcome: an
  object whose propagation yields no position is skipped; a propagated object is
  visible when its elevation exceeds the occlusion elevation at its azimuth, otherwise
  blocked when its elevation exceeds -10 degrees, and otherwise dropped. The visible
  list holds the visible objects in catalog order, the blocked counter counts the
  blocked ones, and skipped and dropped objects are in neither.
\<close>

theorem satellites_classified:
  assumes "length (az (horizon st)) < 2 ^ 31"
  shows "\<exists>t. updateMathLoop satLook planeLook st = Some t
      \<and> visSats t = map (sat_obj satLook)
            (filter (\<lambda>s. sat_outcome satLook (horizon st) s = Visible) (satRecords st))
      \<and> blockSats t
          = length (filter (\<lambda>s. sat_outcome satLook (horizon st) s = Blocked) (satRecords st))
      \<and> (\<forall>s. satLook s = None \<longrightarrow> sat_outcome satLook (horizon st) s = Skipped)
      \<and> (\<forall>s lk. satLook s = Some lk \<longrightarrow>
            (\<exists>lmt. getHorizonLimit (horizon st) (rad2deg (azimuth lk)) = Some lmt
               \<and> sat_outcome satLook (horizon st) s = classify_sat (rad2deg (elevation lk)) lmt
               \<and> (sat_outcome satLook (horizon st) s = Visible
                    \<longleftrightarrow> js_gt (rad2deg (elevation lk)) lmt)
               \<and> (sat_outcome satLook (horizon st) s = Blocked
                    \<longleftrightarrow> \<not> js_gt (rad2deg (elevation lk)) lmt
                        \<and> js_gt (rad2deg (elevation lk)) (Num (- 10)))
               \<and> (sat_outcome satLook (horizon st) s = Dropped
                    \<longleftrightarrow> \<not> js_gt (rad2deg (elevation lk)) lmt
                        \<and> \<not> js_gt (rad2deg (elevation lk)) (Num (- 10)))))"
proof -
  let ?h = "horizon st"
  have sats: "for_each (sat_step satLook ?h) (satRecords st) ([], 0)
      = Some (map (sat_obj satLook) (filter (\<lambda>s. sat_outcome satLook ?h s = Visible) (satRecords st)),
              length (filter (\<lambda>s. sat_outcome satLook ?h s = Blocked) (satRecords st)))"
    using for_each_sat_step[OF assms, of satLook "satRecords st" "[]" 0] by simp
  have acs: "\<exists>r. for_each (plane_step planeLook ?h) (object_values (planes st)) ([], 0) = Some r"
    using for_each_plane_step[OF assms, of planeLook "object_values (planes st)" "[]" 0] by simp
  have tick: "\<exists>t. updateMathLoop satLook planeLook st = Some t
      \<and> visSats t = map (sat_obj satLook) (filter (\<lambda>s. sat_outcome satLook ?h s = Visible) (satRecords st))
      \<and> blockSats t = length (filter (\<lambda>s. sat_outcome satLook ?h s = Blocked) (satRecords st))"
    using sats acs by (auto simp: updateMathLoop_def)
  have skipped: "\<forall>s. satLook s = None \<longrightarrow> sat_outcome satLook ?h s = Skipped"
    by (simp add: sat_outcome_def)
  have each: "\<forall>s lk. satLook s = Some lk \<longrightarrow>
            (\<exists>lmt. getHorizonLimit ?h (rad2deg (azimuth lk)) = Some lmt
               \<and> sat_outcome satLook ?h s = classify_sat (rad2deg (elevation lk)) lmt
               \<and> (sat_outcome satLook ?h s = Visible \<longleftrightarrow> js_gt (rad2deg (elevation lk)) lmt)
               \<and> (sat_outcome satLook ?h s = Blocked
                    \<longleftrightarrow> \<not> js_gt (rad2deg (elevation lk)) lmt
                        \<and> js_gt (rad2deg (elevation lk)) (Num (- 10)))
               \<and> (sat_outcome satLook ?h s = Dropped
                    \<longleftrightarrow> \<not> js_gt (rad2deg (elevation lk)) lmt
                        \<and> \<not> js_gt (rad2deg (elevation lk)) (Num (- 10))))"
  proof (intro allI impI)
    fix s lk assume lk: "satLook s = Some lk"
    obtain lmt where l: "getHorizonLimit ?h (rad2deg (azimuth lk)) = Some lmt"
      using getHorizonLimit_total[OF assms] by blast
    have o: "sat_outcome satLook ?h s = classify_sat (rad2deg (elevation lk)) lmt"
      using lk l by (simp add: sat_outcome_def)
    show "\<exists>lmt. getHorizonLimit ?h (rad2deg (azimuth lk)) = Some lmt
               \<and> sat_outcome satLook ?h s = classify_sat (rad2deg (elevation lk)) lmt
               \<and> (sat_outcome satLook ?h s = Visible \<longleftrightarrow> js_gt (rad2deg (elevation lk)) lmt)
               \<and> (sat_outcome satLook ?h s = Blocked
                    \<longleftrightarrow> \<not> js_gt (rad2deg (elevation lk)) lmt
                        \<and> js_gt (rad2deg (elevation lk)) (Num (- 10)))
               \<and> (sat_outcome satLook ?h s = Dropped
                    \<longleftrightarrow> \<not> js_gt (rad2deg (elevation lk)) lmt
                        \<and> \<not> js_gt (rad2deg (elevation lk)) (Num (- 10)))"
      using l o classify_sat_iff[of "rad2deg (elevation lk)" lmt] by simp
  qed
  show ?thesis using tick skipped each by blast
qed


theorem satellites_classified_witness:
  "\<exists>t. updateMathLoop
      (\<lambda>s. if name s = ''VIS'' then Some \<lparr>azimuth = Num (pi / 4), elevation = Num (pi / 18), rangeSat = Num 550\<rparr>
           else if name s = ''LOW'' then Some \<lparr>azimuth = Num (pi / 4), elevation = Num 0, rangeSat = Num 900\<rparr>
           else if name s = ''FAR'' then Some \<lparr>azimuth = Num (pi / 4), elevation = Num (- pi / 2), rangeSat = Num 7000\<rparr>
           else None)
      (\<lambda>p. \<lparr>azimuth = Num 0, elevation = Num 0, rangeSat = Num 0\<rparr>)
      \<lparr>satRecords = [\<lparr>name = ''VIS'', group = ''OTHER'', satrec = ()\<rparr>,
                     \<lparr>name = ''LOW'', group = ''OTHER'', satrec = ()\<rparr>,
                     \<lparr>name = ''FAR'', group = ''OTHER'', satrec = ()\<rparr>,
                     \<lparr>name = ''GONE'', group = ''OTHER'', satrec = ()\<rparr>],
       planes = [],
       horizon = \<lparr>az = [Num 0, Num 90, Num 180, Num 270], alt = [Num 2, Num 2, Num 2, Num 2]\<rparr>,
       plotInitialized = True\<rparr> = Some t
     \<and> visSats t = [\<lparr>vname = Some ''VIS'', vaz = Num 45, vel = Num 10, vdist = Num 550, vgroup = ''OTHER''\<rparr>]
     \<and> blockSats t = 1"
proof -
  define SL :: "unit sat \<Rightarrow> look option" where "SL =
      (\<lambda>s. if name s = ''VIS'' then Some \<lparr>azimuth = Num (pi / 4), elevation = Num (pi / 18), rangeSat = Num 550\<rparr>
           else if name s = ''LOW'' then Some \<lparr>azimuth = Num (pi / 4), elevation = Num 0, rangeSat = Num 900\<rparr>
           else if name s = ''FAR'' then Some \<lparr>azimuth = Num (pi / 4), elevation = Num (- pi / 2), rangeSat = Num 7000\<rparr>
           else None)"
  define H where "H = \<lparr>az = [Num 0, Num 90, Num 180, Num 270], alt = [Num 2, Num 2, Num 2, Num 2]\<rparr>"
  define ST where "ST = \<lparr>satRecords = [\<lparr>name = ''VIS'', group = ''OTHER'', satrec = ()\<rparr>,
                     \<lparr>name = ''LOW'', group = ''OTHER'', satrec = ()\<rparr>,
                     \<lparr>name = ''FAR'', group = ''OTHER'', satrec = ()\<rparr>,
                     \<lparr>name = ''GONE'', group = ''OTHER'', satrec = ()\<rparr>],
       planes = [], horizon = H, plotInitialized = True\<rparr>"
  have lim: "getHorizonLimit H (Num 45) = Some (Num 2)"
    by (simp add: H_def getHorizonLimit_def bsearch.simps ushr1_def num_at_def fmod_def
        js_trunc_def js_sub_def Let_def)
  have o: "sat_outcome SL H \<lparr>name = ''VIS'', group = ''OTHER'', satrec = ()\<rparr> = Visible"
      "sat_outcome SL H \<lparr>name = ''LOW'', group = ''OTHER'', satrec = ()\<rparr> = Blocked"
      "sat_outcome SL H \<lparr>name = ''FAR'', group = ''OTHER'', satrec = ()\<rparr> = Dropped"
      "sat_outcome SL H \<lparr>name = ''GONE'', group = ''OTHER'', satrec = ()\<rparr> = Skipped"
    by (simp_all add: sat_outcome_def SL_def rad2deg_def lim classify_sat_def js_gt_def)
  have len: "length (az (horizon ST)) < 2 ^ 31" by (simp add: ST_def H_def)
  obtain t where t: "updateMathLoop SL (\<lambda>p. \<lparr>azimuth = Num 0, elevation = Num 0, rangeSat = Num 0\<rparr>) ST = Some t"
      "visSats t = map (sat_obj SL) (filter (\<lambda>s. sat_outcome SL (horizon ST) s = Visible) (satRecords ST))"
      "blockSats t = length (filter (\<lambda>s. sat_outcome SL (horizon ST) s = Blocked) (satRecords ST))"
    using satellites_classified[OF len, of SL "\<lambda>p. \<lparr>azimuth = Num 0, elevation = Num 0, rangeSat = Num 0\<rparr>"]
    by blast
  have v: "visSats t = [\<lparr>vname = Some ''VIS'', vaz = Num 45, vel = Num 10, vdist = Num 550, vgroup = ''OTHER''\<rparr>]"
    using t(2) by (simp add: ST_def o) (simp add: sat_obj_def SL_def rad2deg_def)
  have b: "blockSats t = 1" using t(3) by (simp add: ST_def o)
  show ?thesis using t(1) v b unfolding SL_def ST_def H_def by blast
qed


text \<open>
  C8. With a profile of fewer than \<open>2^31\<close> samples, whatever they hold, a tick
  returns, and every tracked aircraft it processes is visible exactly when
  its elevation exceeds the occlusion elevation at its azimuth less half a degree, and
  is counted as blocked otherwise. There is no third outcome for aircraft: the length
  of the visible list plus the blocked counter is the number of tracked aircraft.
\<close>

theorem aircraft_classified:
  assumes "length (az (horizon st)) < 2 ^ 31"
  shows "\<exists>t. updateMathLoop satLook planeLook st = Some t
      \<and> visPlanes t = map (plane_obj planeLook)
            (filter (\<lambda>p. plane_outcome planeLook (horizon st) p = Visible) (object_values (planes st)))
      \<and> blockPlanes t
          = length (filter (\<lambda>p. plane_outcome planeLook (horizon st) p = Blocked)
                      (object_values (planes st)))
      \<and> length (visPlanes t) + blockPlanes t = length (planes st)
      \<and> length (object_values (planes st)) = length (planes st)
      \<and> (\<forall>p. \<exists>lmt. getHorizonLimit (horizon st) (rad2deg (azimuth (planeLook p))) = Some lmt
             \<and> (plane_outcome planeLook (horizon st) p = Visible
                  \<longleftrightarrow> js_gt (rad2deg (elevation (planeLook p))) (js_sub lmt (Num 0.5)))
             \<and> (plane_outcome planeLook (horizon st) p = Blocked
                  \<longleftrightarrow> \<not> js_gt (rad2deg (elevation (planeLook p))) (js_sub lmt (Num 0.5))))"
proof -
  let ?h = "horizon st"
  let ?vs = "object_values (planes st)"
  let ?V = "\<lambda>p. plane_outcome planeLook ?h p = Visible"
  let ?B = "\<lambda>p. plane_outcome planeLook ?h p = Blocked"
  have sats: "\<exists>r. for_each (sat_step satLook ?h) (satRecords st) ([], 0) = Some r"
    using for_each_sat_step[OF assms, of satLook "satRecords st" "[]" 0] by simp
  have acs: "for_each (plane_step planeLook ?h) ?vs ([], 0)
      = Some (map (plane_obj planeLook) (filter ?V ?vs), length (filter ?B ?vs))"
    using for_each_plane_step[OF assms, of planeLook ?vs "[]" 0] by simp
  have tick: "\<exists>t. updateMathLoop satLook planeLook st = Some t
      \<and> visPlanes t = map (plane_obj planeLook) (filter ?V ?vs)
      \<and> blockPlanes t = length (filter ?B ?vs)"
    using sats acs by (auto simp: updateMathLoop_def)
  have "?B = (\<lambda>p. \<not> ?V p)"
    using plane_outcome_cases[OF assms, of planeLook] by (intro ext) (metis outcome.distinct(1))
  then have "length (filter ?V ?vs) + length (filter ?B ?vs) = length ?vs"
    by (simp add: sum_length_filter_compl)
  then have total: "length (map (plane_obj planeLook) (filter ?V ?vs)) + length (filter ?B ?vs)
      = length (planes st)"
    by (simp add: length_object_values)
  have each: "\<forall>p. \<exists>lmt. getHorizonLimit ?h (rad2deg (azimuth (planeLook p))) = Some lmt
             \<and> (?V p \<longleftrightarrow> js_gt (rad2deg (elevation (planeLook p))) (js_sub lmt (Num 0.5)))
             \<and> (?B p \<longleftrightarrow> \<not> js_gt (rad2deg (elevation (planeLook p))) (js_sub lmt (Num 0.5)))"
  proof
    fix p
    obtain lmt where l: "getHorizonLimit ?h (rad2deg (azimuth (planeLook p))) = Some lmt"
      using getHorizonLimit_total[OF assms] by blast
    then show "\<exists>lmt. getHorizonLimit ?h (rad2deg (azimuth (planeLook p))) = Some lmt
             \<and> (?V p \<longleftrightarrow> js_gt (rad2deg (elevation (planeLook p))) (js_sub lmt (Num 0.5)))
             \<and> (?B p \<longleftrightarrow> \<not> js_gt (rad2deg (elevation (planeLook p))) (js_sub lmt (Num 0.5)))"
      by (simp add: plane_outcome_def classify_plane_def)
  qed
  obtain t where t: "updateMathLoop satLook planeLook st = Some t"
      "visPlanes t = map (plane_obj planeLook) (filter ?V ?vs)"
      "blockPlanes t = length (filter ?B ?vs)"
    using tick by blast
  have sum: "length (visPlanes t) + blockPlanes t = length (planes st)"
    using total t(2,3) by simp
  show ?thesis using t sum length_object_values[of "planes st"] each by blast
qed


theorem aircraft_classified_witness:
  "\<exists>t. updateMathLoop (\<lambda>s. None)
      (\<lambda>p. if callsign p = Some ''NEAR'' then \<lparr>azimuth = Num 0, elevation = Num (pi / 100), rangeSat = Num 40\<rparr>
           else if callsign p = Some ''EDGE'' then \<lparr>azimuth = Num 0, elevation = Num (pi / 120), rangeSat = Num 60\<rparr>
           else \<lparr>azimuth = Num 0, elevation = Num (- pi / 2), rangeSat = Num 300\<rparr>)
      \<lparr>satRecords = ([] :: unit sat list),
       planes = [(''a1b2c3'', \<lparr>hex = Some ''a1b2c3'', callsign = Some ''NEAR'', lat = Some 37, lon = Some (- 118),
                              alt_ft = Number 30000, last_update = 0\<rparr>),
                 (''c0ffee'', \<lparr>hex = Some ''c0ffee'', callsign = Some ''DEEP'', lat = Some 38, lon = Some (- 117),
                              alt_ft = Number 1000, last_update = 0\<rparr>),
                 (''406123'', \<lparr>hex = Some ''406123'', callsign = Some ''EDGE'', lat = Some 36, lon = Some (- 119),
                              alt_ft = Number 12000, last_update = 0\<rparr>)],
       horizon = \<lparr>az = [Num 0], alt = [Num 2]\<rparr>,
       plotInitialized = True\<rparr> = Some t
     \<and> visPlanes t = [\<lparr>vname = Some ''NEAR'', vaz = Num 0, vel = Num (9 / 5), vdist = Num 40, vgroup = ''Aircraft''\<rparr>]
     \<and> blockPlanes t = 2"
proof -
  define PL :: "plane \<Rightarrow> look" where "PL =
      (\<lambda>p. if callsign p = Some ''NEAR'' then \<lparr>azimuth = Num 0, elevation = Num (pi / 100), rangeSat = Num 40\<rparr>
           else if callsign p = Some ''EDGE'' then \<lparr>azimuth = Num 0, elevation = Num (pi / 120), rangeSat = Num 60\<rparr>
           else \<lparr>azimuth = Num 0, elevation = Num (- pi / 2), rangeSat = Num 300\<rparr>)"
  define H where "H = \<lparr>az = [Num 0], alt = [Num 2]\<rparr>"
  define A where "A = \<lparr>hex = Some ''a1b2c3'', callsign = Some ''NEAR'', lat = Some 37, lon = Some (- 118),
                              alt_ft = Number 30000, last_update = 0\<rparr>"
  define B where "B = \<lparr>hex = Some ''406123'', callsign = Some ''EDGE'', lat = Some 36, lon = Some (- 119),
                              alt_ft = Number 12000, last_update = 0\<rparr>"
  define C where "C = \<lparr>hex = Some ''c0ffee'', callsign = Some ''DEEP'', lat = Some 38, lon = Some (- 117),
                              alt_ft = Number 1000, last_update = 0\<rparr>"
  define ST where "ST = \<lparr>satRecords = ([] :: unit sat list),
       planes = [(''a1b2c3'', A), (''c0ffee'', C), (''406123'', B)], horizon = H, plotInitialized = True\<rparr>"
  have lim: "getHorizonLimit H (Num 0) = Some (Num 2)"
    by (simp add: H_def getHorizonLimit_def bsearch.simps ushr1_def num_at_def fmod_def
        js_trunc_def js_sub_def Let_def)
  have o: "plane_outcome PL H A = Visible" "plane_outcome PL H B = Blocked" "plane_outcome PL H C = Blocked"
    by (simp_all add: plane_outcome_def PL_def A_def B_def C_def rad2deg_def lim classify_plane_def
        js_gt_def js_sub_def)
  have keys: "\<not> is_index_key ''a1b2c3''" "\<not> is_index_key ''c0ffee''" "is_index_key ''406123''"
    by (simp_all add: is_index_key_def is_digit_def digits_val_def)
  have vals: "object_values (planes ST) = [B, A, C]"
    by (simp add: ST_def object_values_def keys)
  have len: "length (az (horizon ST)) < 2 ^ 31" by (simp add: ST_def H_def)
  obtain t where t: "updateMathLoop (\<lambda>s. None) PL ST = Some t"
      "visPlanes t = map (plane_obj PL) (filter (\<lambda>p. plane_outcome PL (horizon ST) p = Visible) (object_values (planes ST)))"
      "blockPlanes t = length (filter (\<lambda>p. plane_outcome PL (horizon ST) p = Blocked) (object_values (planes ST)))"
    using aircraft_classified[OF len, of "\<lambda>s. None" PL] by blast
  have hz: "horizon ST = H" by (simp add: ST_def)
  have v: "visPlanes t = [\<lparr>vname = Some ''NEAR'', vaz = Num 0, vel = Num (9 / 5), vdist = Num 40, vgroup = ''Aircraft''\<rparr>]"
    using t(2) by (simp add: vals hz o) (simp add: plane_obj_def PL_def A_def rad2deg_def)
  have b: "blockPlanes t = 2" using t(3) by (simp add: vals hz o)
  show ?thesis using t(1) v b unfolding PL_def ST_def H_def A_def B_def C_def by blast
qed

section \<open>The timed cache\<close>

lemma cacheRead_cacheWrite:
  assumes "writable st" "now' - now < ttl"
  shows "cacheRead now' (cacheWrite now st k v) k ttl = Some v"
  using assms by (simp add: cacheRead_def cacheWrite_def)

lemma cacheRead_stale:
  assumes "items st k = Some (Entry ts d)" "ttl \<le> now - ts"
  shows "cacheRead now st k ttl = None"
  using assms by (simp add: cacheRead_def)

lemma cacheRead_unusable:
  assumes "items st k = None \<or> items st k = Some Corrupt"
  shows "cacheRead now st k ttl = None"
  using assms by (auto simp: cacheRead_def)

text \<open>
  C4. When the store accepts the write, a payload written under a key is returned
  unchanged by a read of that key while its age is below the time to live; in
  particular by an immediate read with a positive time to live, for the text helper
  and the structured helper alike, and then without looking at the network. A read of
  an entry whose age has reached the time to live reports absent. An entry that is
  missing or corrupt reads as absent, and the helpers then go on to the network exactly
  as they do for a missing entry: a corrupt entry raises nothing.
\<close>

theorem cache_round_trip:
  "(writable js \<and> now' - now < ttl \<longrightarrow> cacheRead now' (cacheWrite now js k dat) k ttl = Some dat)
   \<and> (writable js \<and> 0 < ttl \<longrightarrow> cacheRead now (cacheWrite now js k dat) k ttl = Some dat)
   \<and> (writable ts \<and> 0 < ttl \<and> cacheRead now ts k ttl = None \<longrightarrow>
        cachedFetchText now (snd (cachedFetchText now ts (Inr payload) k ttl)) net k ttl
          = (Inr payload, cacheWrite now ts k payload))
   \<and> (writable js \<and> 0 < ttl \<and> cacheRead now js k ttl = None \<longrightarrow>
        cachedFetchJson now (snd (cachedFetchJson now js (Inr dat) k ttl)) netj k ttl
          = (Inr dat, cacheWrite now js k dat))
   \<and> (items js k = Some (Entry t0 d) \<and> ttl \<le> now - t0 \<longrightarrow> cacheRead now js k ttl = None)
   \<and> (items js k = None \<or> items js k = Some Corrupt \<longrightarrow> cacheRead now js k ttl = None)
   \<and> (items ts k = Some Corrupt \<longrightarrow>
        fst (cachedFetchText now ts net k ttl)
          = fst (cachedFetchText now (ts\<lparr>items := (items ts)(k := None)\<rparr>) net k ttl))
   \<and> (items js k = Some Corrupt \<longrightarrow>
        fst (cachedFetchJson now js netj k ttl)
          = fst (cachedFetchJson now (js\<lparr>items := (items js)(k := None)\<rparr>) netj k ttl))"
proof -
  have a: "writable js \<and> now' - now < ttl \<longrightarrow> cacheRead now' (cacheWrite now js k dat) k ttl = Some dat"
    by (simp add: cacheRead_cacheWrite)
  have b: "writable js \<and> 0 < ttl \<longrightarrow> cacheRead now (cacheWrite now js k dat) k ttl = Some dat"
    by (simp add: cacheRead_cacheWrite)
  have c: "writable ts \<and> 0 < ttl \<and> cacheRead now ts k ttl = None \<longrightarrow>
        cachedFetchText now (snd (cachedFetchText now ts (Inr payload) k ttl)) net k ttl
          = (Inr payload, cacheWrite now ts k payload)"
    by (simp add: cachedFetchText_def cacheRead_cacheWrite)
  have d: "writable js \<and> 0 < ttl \<and> cacheRead now js k ttl = None \<longrightarrow>
        cachedFetchJson now (snd (cachedFetchJson now js (Inr dat) k ttl)) netj k ttl
          = (Inr dat, cacheWrite now js k dat)"
    by (simp add: cachedFetchJson_def cacheRead_cacheWrite)
  have e: "items js k = Some (Entry t0 d) \<and> ttl \<le> now - t0 \<longrightarrow> cacheRead now js k ttl = None"
    by (simp add: cacheRead_stale)
  have f: "items js k = None \<or> items js k = Some Corrupt \<longrightarrow> cacheRead now js k ttl = None"
    by (auto simp: cacheRead_def)
  have g: "items ts k = Some Corrupt \<longrightarrow>
        fst (cachedFetchText now ts net k ttl)
          = fst (cachedFetchText now (ts\<lparr>items := (items ts)(k := None)\<rparr>) net k ttl)"
    by (cases net) (simp_all add: cachedFetchText_def cacheRead_def)
  have h: "items js k = Some Corrupt \<longrightarrow>
        fst (cachedFetchJson now js netj k ttl)
          = fst (cachedFetchJson now (js\<lparr>items := (items js)(k := None)\<rparr>) netj k ttl)"
    by (cases netj) (simp_all add: cachedFetchJson_def cacheRead_def)
  show ?thesis using a b c d e f g h by blast
qed

theorem cache_round_trip_witness:
  "cacheRead 1000 (cacheWrite 1000 \<lparr>items = (\<lambda>k. None), writable = True\<rparr> ''planes'' (7 :: nat))
      ''planes'' 1 = Some 7
   \<and> cacheRead 1999 (cacheWrite 1000 \<lparr>items = (\<lambda>k. None), writable = True\<rparr> ''planes'' (7 :: nat))
      ''planes'' 1000 = Some 7
   \<and> cachedFetchText 1000
        (snd (cachedFetchText 1000 \<lparr>items = (\<lambda>k. None), writable = True\<rparr> (Inr ''ISS'') ''tles_active'' 1))
        (Inl NetworkError) ''tles_active'' 1
      = (Inr ''ISS'', cacheWrite 1000 \<lparr>items = (\<lambda>k. None), writable = True\<rparr> ''tles_active'' ''ISS'')
   \<and> cachedFetchJson 1000
        (snd (cachedFetchJson 1000 \<lparr>items = (\<lambda>k. None), writable = True\<rparr> (Inr (7 :: nat)) ''planes'' 1))
        (Inl NetworkError) ''planes'' 1
      = (Inr 7, cacheWrite 1000 \<lparr>items = (\<lambda>k. None), writable = True\<rparr> ''planes'' 7)
   \<and> cacheRead 2000 \<lparr>items = (\<lambda>k. if k = ''planes'' then Some (Entry 1000 (7 :: nat)) else None),
                       writable = True\<rparr> ''planes'' 1000 = None
   \<and> cacheRead 2000 \<lparr>items = (\<lambda>k. if k = ''planes'' then Some Corrupt else None),
                       writable = True\<rparr> ''planes'' 1000 = (None :: nat option)
   \<and> fst (cachedFetchText 2000 \<lparr>items = (\<lambda>k. if k = ''tles_active'' then Some Corrupt else None),
                       writable = True\<rparr> (Inr ''NEW'') ''tles_active'' 1000) = Inr ''NEW''
   \<and> fst (cachedFetchJson 2000 \<lparr>items = (\<lambda>k. if k = ''planes'' then Some Corrupt else None),
                       writable = True\<rparr> (Inr (8 :: nat)) ''planes'' 1000) = Inr 8"
proof -
  let ?e = "\<lparr>items = (\<lambda>k. None), writable = True\<rparr> :: string storage"
  let ?ej = "\<lparr>items = (\<lambda>k. None), writable = True\<rparr> :: nat storage"
  let ?sj = "\<lparr>items = (\<lambda>k. if k = ''planes'' then Some (Entry 1000 (7 :: nat)) else None),
                       writable = True\<rparr>"
  let ?c = "\<lparr>items = (\<lambda>k. if k = ''tles_active'' then Some Corrupt else None),
                       writable = True\<rparr> :: string storage"
  let ?cj = "\<lparr>items = (\<lambda>k. if k = ''planes'' then Some Corrupt else None),
                       writable = True\<rparr> :: nat storage"
  note fresh = cache_round_trip[where js = ?ej and ts = ?e and now' = 1999 and now = 1000
      and ttl = 1000 and k = "''planes''" and dat = 7 and payload = "''ISS''"
      and net = "Inl NetworkError" and netj = "Inl NetworkError" and ?t0.0 = 0 and d = 0]
  note immediate = cache_round_trip[where js = ?ej and ts = ?e and now' = 1000 and now = 1000
      and ttl = 1 and k = "''planes''" and dat = 7 and payload = "''ISS''"
      and net = "Inl NetworkError" and netj = "Inl NetworkError" and ?t0.0 = 0 and d = 0]
  note immediate_text = cache_round_trip[where js = ?ej and ts = ?e and now' = 1000 and now = 1000
      and ttl = 1 and k = "''tles_active''" and dat = 7 and payload = "''ISS''"
      and net = "Inl NetworkError" and netj = "Inl NetworkError" and ?t0.0 = 0 and d = 0]
  note stale = cache_round_trip[where js = ?sj and ts = ?c and now' = 2000 and now = 2000
      and ttl = 1000 and k = "''planes''" and dat = 7 and payload = "''ISS''"
      and net = "Inr ''NEW''" and netj = "Inr 8" and ?t0.0 = 1000 and d = 7]
  note corrupt = cache_round_trip[where js = ?cj and ts = ?c and now' = 2000 and now = 2000
      and ttl = 1000 and k = "''planes''" and dat = 7 and payload = "''ISS''"
      and net = "Inr ''NEW''" and netj = "Inr 8" and ?t0.0 = 1000 and d = 7]
  note corrupt_text = cache_round_trip[where js = ?cj and ts = ?c and now' = 2000 and now = 2000
      and ttl = 1000 and k = "''tles_active''" and dat = 7 and payload = "''ISS''"
      and net = "Inr ''NEW''" and netj = "Inr 8" and ?t0.0 = 1000 and d = 7]
  have w1: "cacheRead 1000 (cacheWrite 1000 ?ej ''planes'' 7) ''planes'' 1 = Some 7"
    using immediate by simp
  have w2: "cacheRead 1999 (cacheWrite 1000 ?ej ''planes'' 7) ''planes'' 1000 = Some 7"
    using fresh by simp
  have w3: "cachedFetchText 1000 (snd (cachedFetchText 1000 ?e (Inr ''ISS'') ''tles_active'' 1))
        (Inl NetworkError) ''tles_active'' 1 = (Inr ''ISS'', cacheWrite 1000 ?e ''tles_active'' ''ISS'')"
    using immediate_text by (simp add: cacheRead_def)
  have w4: "cachedFetchJson 1000 (snd (cachedFetchJson 1000 ?ej (Inr (7 :: nat)) ''planes'' 1))
        (Inl NetworkError) ''planes'' 1 = (Inr 7, cacheWrite 1000 ?ej ''planes'' 7)"
    using immediate by (simp add: cacheRead_def)
  have w5: "cacheRead 2000 ?sj ''planes'' 1000 = None"
    using stale by simp
  have w6: "cacheRead 2000 ?cj ''planes'' 1000 = None"
    using corrupt by simp
  have w7: "fst (cachedFetchText 2000 ?c (Inr ''NEW'') ''tles_active'' 1000) = Inr ''NEW''"
    using corrupt_text by (simp add: cachedFetchText_def cacheRead_def)
  have w8: "fst (cachedFetchJson 2000 ?cj (Inr (8 :: nat)) ''planes'' 1000) = Inr 8"
    using corrupt by (simp add: cachedFetchJson_def cacheRead_def)
  show ?thesis using w1 w2 w3 w4 w5 w6 w7 w8 by blast
qed

section \<open>The aircraft feed\<close>

lemma map_of_cleanup_key:
  "map_of (cleanup_key now V k ps) k' =
     (if k' = k then
        (case map_of ps k of
           None \<Rightarrow> None
         | Some p \<Rightarrow> if Some k \<notin> V \<and> now - last_update p > 15000 then None else Some p)
      else map_of ps k')"
  by (auto simp: cleanup_key_def AList.delete_conv split: option.splits)

lemma map_of_fold_cleanup_key:
  "map_of (fold (cleanup_key now V) ks ps) k =
     (if k \<in> set ks then
        (case map_of ps k of
           None \<Rightarrow> None
         | Some p \<Rightarrow> if Some k \<notin> V \<and> now - last_update p > 15000 then None else Some p)
      else map_of ps k)"
proof (induction ks arbitrary: ps)
  case Nil
  then show ?case by simp
next
  case (Cons x ks)
  show ?case
    by (simp add: Cons.IH map_of_cleanup_key split: option.splits)
qed

lemma map_of_cleanup:
  "map_of (cleanup now V ps) k =
     (case map_of ps k of
        None \<Rightarrow> None
      | Some p \<Rightarrow> if Some k \<notin> V \<and> now - last_update p > 15000 then None else Some p)"
proof (cases "k \<in> set (map fst ps)")
  case True
  then show ?thesis by (simp add: cleanup_def map_of_fold_cleanup_key del: set_map)
next
  case False
  then have "map_of ps k = None" by (simp add: map_of_eq_None_iff)
  then show ?thesis using False by (simp add: cleanup_def map_of_fold_cleanup_key del: set_map)
qed

lemma fold_upsert_plane_other:
  assumes "\<forall>r\<in>set recs. property_key (ac_hex r) \<noteq> k"
  shows "map_of (fst (fold (upsert_plane now) recs (ps, V))) k = map_of ps k
       \<and> (Some k \<notin> V \<longrightarrow> Some k \<notin> snd (fold (upsert_plane now) recs (ps, V)))"
  using assms
proof (induction recs arbitrary: ps V)
  case Nil
  then show ?case by simp
next
  case (Cons r recs)
  have k: "property_key (ac_hex r) \<noteq> k" using Cons.prems by simp
  then have h: "ac_hex r \<noteq> Some k" by (auto simp: property_key_def)
  have rest: "\<forall>r\<in>set recs. property_key (ac_hex r) \<noteq> k" using Cons.prems by simp
  show ?case
  proof (cases "falsy_num (ac_lat r) \<or> falsy_num (ac_lon r)")
    case True
    then have "upsert_plane now r (ps, V) = (ps, V)" by (simp add: upsert_plane_def)
    then show ?thesis using Cons.IH[OF rest] by simp
  next
    case False
    then have u: "upsert_plane now r (ps, V)
        = (AList.update (property_key (ac_hex r)) (plane_of now r) ps, insert (ac_hex r) V)"
      by (simp add: upsert_plane_def)
    show ?thesis
      using Cons.IH[OF rest, of "AList.update (property_key (ac_hex r)) (plane_of now r) ps"
          "insert (ac_hex r) V"] k h
      by (simp add: u AList.update_conv')
  qed
qed


lemma fetchPlanes_success:
  assumes "fst (cachedFetchJson now_fetch store net storageKey PLANE_FETCH_MS) = Inr data"
  shows "planes (fst (fetchPlanes now_fetch now store net storageKey st))
    = cleanup now
        (snd (fold (upsert_plane now) (case ac data of None \<Rightarrow> [] | Some recs \<Rightarrow> recs) (planes st, {})))
        (fst (fold (upsert_plane now) (case ac data of None \<Rightarrow> [] | Some recs \<Rightarrow> recs) (planes st, {})))"
  using assms
  by (cases "cachedFetchJson now_fetch store net storageKey PLANE_FETCH_MS")
     (simp add: fetchPlanes_def Let_def)

text \<open>
  C5, as the code has it. After a fetch that retrieved a snapshot without the aircraft,
  a tracked aircraft is still there, unchanged, while \<open>now - last_update\<close> is at most
  15000 ms, and is gone once it is more than 15000 ms: at the boundary of exactly
  15000 ms the entry is retained. The retained entry keeps its \<open>last_update\<close>, so the
  same holds at every later fetch.
\<close>

theorem grace_window:
  assumes "map_of (planes st) k = Some p"
    and "fst (cachedFetchJson now_fetch store net storageKey PLANE_FETCH_MS) = Inr data"
    and "\<forall>r\<in>set (case ac data of None \<Rightarrow> [] | Some recs \<Rightarrow> recs). property_key (ac_hex r) \<noteq> k"
  shows "(now - last_update p < 15000 \<longrightarrow>
           map_of (planes (fst (fetchPlanes now_fetch now store net storageKey st))) k = Some p)
       \<and> (now - last_update p = 15000 \<longrightarrow>
           map_of (planes (fst (fetchPlanes now_fetch now store net storageKey st))) k = Some p)
       \<and> (now - last_update p > 15000 \<longrightarrow>
           map_of (planes (fst (fetchPlanes now_fetch now store net storageKey st))) k = None)"
proof -
  let ?recs = "case ac data of None \<Rightarrow> [] | Some recs \<Rightarrow> recs"
  let ?s = "fold (upsert_plane now) ?recs (planes st, {})"
  have kept: "map_of (fst ?s) k = Some p" and invalid: "Some k \<notin> snd ?s"
    using fold_upsert_plane_other[OF assms(3), of now "planes st" "{}"] assms(1) by simp_all
  have "map_of (planes (fst (fetchPlanes now_fetch now store net storageKey st))) k
      = (if now - last_update p > 15000 then None else Some p)"
    by (simp add: fetchPlanes_success[OF assms(2)] map_of_cleanup kept invalid)
  then show ?thesis by simp
qed

theorem grace_window_witness:
  "map_of (planes (fst (fetchPlanes 14999 14999 \<lparr>items = (\<lambda>k. None), writable = True\<rparr>
        (Inr \<lparr>ac = Some [\<lparr>ac_hex = Some ''c0ffee'', ac_flight = Some ''DAL88   '', ac_r = Some ''N501DN'',
                             ac_lat = Some 36.5, ac_lon = Some (- 117.25), ac_alt_geom = Number 35000,
                             ac_alt_baro = Number 34900\<rparr>]\<rparr>)
        ''planes_37.2317_-118.2951_200''
        \<lparr>satRecords = ([] :: unit sat list),
         planes = [(''a1b2c3'', \<lparr>hex = Some ''a1b2c3'', callsign = Some ''UAL123'', lat = Some 37,
                                lon = Some (- 118), alt_ft = Number 30000, last_update = 0\<rparr>)],
         horizon = \<lparr>az = [], alt = []\<rparr>, plotInitialized = True\<rparr>))) ''a1b2c3''
     = Some \<lparr>hex = Some ''a1b2c3'', callsign = Some ''UAL123'', lat = Some 37,
             lon = Some (- 118), alt_ft = Number 30000, last_update = 0\<rparr>
   \<and> map_of (planes (fst (fetchPlanes 15000 15000 \<lparr>items = (\<lambda>k. None), writable = True\<rparr>
        (Inr \<lparr>ac = Some [\<lparr>ac_hex = Some ''c0ffee'', ac_flight = Some ''DAL88   '', ac_r = Some ''N501DN'',
                             ac_lat = Some 36.5, ac_lon = Some (- 117.25), ac_alt_geom = Number 35000,
                             ac_alt_baro = Number 34900\<rparr>]\<rparr>)
        ''planes_37.2317_-118.2951_200''
        \<lparr>satRecords = ([] :: unit sat list),
         planes = [(''a1b2c3'', \<lparr>hex = Some ''a1b2c3'', callsign = Some ''UAL123'', lat = Some 37,
                                lon = Some (- 118), alt_ft = Number 30000, last_update = 0\<rparr>)],
         horizon = \<lparr>az = [], alt = []\<rparr>, plotInitialized = True\<rparr>))) ''a1b2c3''
     = Some \<lparr>hex = Some ''a1b2c3'', callsign = Some ''UAL123'', lat = Some 37,
             lon = Some (- 118), alt_ft = Number 30000, last_update = 0\<rparr>
   \<and> map_of (planes (fst (fetchPlanes 15001 15001 \<lparr>items = (\<lambda>k. None), writable = True\<rparr>
        (Inr \<lparr>ac = Some [\<lparr>ac_hex = Some ''c0ffee'', ac_flight = Some ''DAL88   '', ac_r = Some ''N501DN'',
                             ac_lat = Some 36.5, ac_lon = Some (- 117.25), ac_alt_geom = Number 35000,
                             ac_alt_baro = Number 34900\<rparr>]\<rparr>)
        ''planes_37.2317_-118.2951_200''
        \<lparr>satRecords = ([] :: unit sat list),
         planes = [(''a1b2c3'', \<lparr>hex = Some ''a1b2c3'', callsign = Some ''UAL123'', lat = Some 37,
                                lon = Some (- 118), alt_ft = Number 30000, last_update = 0\<rparr>)],
         horizon = \<lparr>az = [], alt = []\<rparr>, plotInitialized = True\<rparr>))) ''a1b2c3''
     = None"
proof -
  define P where "P = \<lparr>hex = Some ''a1b2c3'', callsign = Some ''UAL123'', lat = Some 37,
                                lon = Some (- 118), alt_ft = Number 30000, last_update = 0\<rparr>"
  define R where "R = \<lparr>ac_hex = Some ''c0ffee'', ac_flight = Some ''DAL88   '', ac_r = Some ''N501DN'',
                             ac_lat = Some 36.5, ac_lon = Some (- 117.25), ac_alt_geom = Number 35000,
                             ac_alt_baro = Number 34900\<rparr>"
  define ST where "ST = \<lparr>satRecords = ([] :: unit sat list), planes = [(''a1b2c3'', P)],
         horizon = \<lparr>az = [], alt = []\<rparr>, plotInitialized = True\<rparr>"
  let ?store = "\<lparr>items = (\<lambda>k. None), writable = True\<rparr> :: snapshot storage"
  let ?key = "''planes_37.2317_-118.2951_200''"
  have m: "map_of (planes ST) ''a1b2c3'' = Some P" by (simp add: ST_def)
  have f: "\<And>t. fst (cachedFetchJson t ?store (Inr \<lparr>ac = Some [R]\<rparr>) ?key PLANE_FETCH_MS)
      = Inr \<lparr>ac = Some [R]\<rparr>"
    by (simp add: cachedFetchJson_def cacheRead_def)
  have a: "\<forall>r\<in>set (case ac \<lparr>ac = Some [R]\<rparr> of None \<Rightarrow> [] | Some recs \<Rightarrow> recs).
      property_key (ac_hex r) \<noteq> ''a1b2c3''"
    by (simp add: R_def property_key_def)
  have lu: "last_update P = 0" by (simp add: P_def)
  have w1: "map_of (planes (fst (fetchPlanes 14999 14999 ?store (Inr \<lparr>ac = Some [R]\<rparr>) ?key ST))) ''a1b2c3''
      = Some P"
    using grace_window[OF m f a, of 14999 14999] by (simp add: lu)
  have w2: "map_of (planes (fst (fetchPlanes 15000 15000 ?store (Inr \<lparr>ac = Some [R]\<rparr>) ?key ST))) ''a1b2c3''
      = Some P"
    using grace_window[OF m f a, of 15000 15000] by (simp add: lu)
  have w3: "map_of (planes (fst (fetchPlanes 15001 15001 ?store (Inr \<lparr>ac = Some [R]\<rparr>) ?key ST))) ''a1b2c3''
      = None"
    using grace_window[OF m f a, of 15001 15001] by (simp add: lu)
  show ?thesis using w1 w2 w3 unfolding ST_def P_def R_def by blast
qed

text \<open>
  At exactly 15000 ms after its last update, an aircraft absent from the snapshot is
  still tracked after the cleanup.
\<close>

theorem grace_window_boundary_retained:
  "map_of (planes (fst (fetchPlanes 15000 15000 \<lparr>items = (\<lambda>k. None), writable = True\<rparr>
        (Inr \<lparr>ac = Some []\<rparr>) ''planes_37.2317_-118.2951_200''
        \<lparr>satRecords = ([] :: unit sat list),
         planes = [(''a1b2c3'', \<lparr>hex = Some ''a1b2c3'', callsign = Some ''UAL123'', lat = Some 37,
                                lon = Some (- 118), alt_ft = Number 30000, last_update = 0\<rparr>)],
         horizon = \<lparr>az = [], alt = []\<rparr>, plotInitialized = True\<rparr>))) ''a1b2c3''
     = Some \<lparr>hex = Some ''a1b2c3'', callsign = Some ''UAL123'', lat = Some 37,
             lon = Some (- 118), alt_ft = Number 30000, last_update = 0\<rparr>"
  by (simp add: fetchPlanes_def cachedFetchJson_def cacheRead_def cacheWrite_def cleanup_def
      cleanup_key_def PLANE_FETCH_MS_def Let_def)


lemma fold_upsert_plane_append:
  "fold (upsert_plane now) (pre @ r # post) s
     = fold (upsert_plane now) post (upsert_plane now r (fold (upsert_plane now) pre s))"
  by simp

text \<open>
  C6, as the code has it. A record whose latitude and longitude are both present and
  not zero is upserted under its hex id: its entry is the record's position, the
  altitude, the fetch time, and as callsign the trimmed \<open>flight\<close> field when that
  field is not empty, else the registration when that is not empty, else the hex id.
  When no later record of the snapshot has the same id, that entry is what the fetch
  leaves in \<open>planes\<close>. A record without latitude changes neither \<open>planes\<close> nor the set
  of valid ids, and a snapshot holding only such a record adds no entry.
\<close>

theorem valid_record_upserted:
  "(\<not> falsy_num (ac_lat r) \<and> \<not> falsy_num (ac_lon r) \<longrightarrow>
      upsert_plane now r (ps, V)
        = (AList.update (property_key (ac_hex r)) (plane_of now r) ps, insert (ac_hex r) V)
      \<and> map_of (fst (upsert_plane now r (ps, V))) (property_key (ac_hex r)) = Some (plane_of now r)
      \<and> (\<forall>k. k \<noteq> property_key (ac_hex r) \<longrightarrow> map_of (fst (upsert_plane now r (ps, V))) k = map_of ps k))
   \<and> (\<forall>h. ac_hex r = Some h \<longrightarrow> property_key (ac_hex r) = h)
   \<and> hex (plane_of now r) = ac_hex r \<and> lat (plane_of now r) = ac_lat r
   \<and> lon (plane_of now r) = ac_lon r \<and> last_update (plane_of now r) = now
   \<and> (\<forall>f. ac_flight r = Some f \<and> f \<noteq> [] \<longrightarrow> callsign (plane_of now r) = Some (trim f))
   \<and> ((ac_flight r = None \<or> ac_flight r = Some []) \<and> truthy_str (ac_r r)
        \<longrightarrow> callsign (plane_of now r) = ac_r r)
   \<and> ((ac_flight r = None \<or> ac_flight r = Some []) \<and> \<not> truthy_str (ac_r r)
        \<longrightarrow> callsign (plane_of now r) = ac_hex r)
   \<and> (\<not> falsy_num (ac_lat r) \<and> \<not> falsy_num (ac_lon r)
       \<and> fst (cachedFetchJson now_fetch store net storageKey PLANE_FETCH_MS) = Inr \<lparr>ac = Some (pre @ r # post)\<rparr>
       \<and> (\<forall>q\<in>set post. property_key (ac_hex q) \<noteq> property_key (ac_hex r)) \<longrightarrow>
        map_of (planes (fst (fetchPlanes now_fetch now store net storageKey st))) (property_key (ac_hex r))
          = Some (plane_of now r))
   \<and> (ac_lat r = None \<longrightarrow> upsert_plane now r (ps, V) = (ps, V))
   \<and> (ac_lat r = None
       \<and> fst (cachedFetchJson now_fetch store net storageKey PLANE_FETCH_MS) = Inr \<lparr>ac = Some [r]\<rparr> \<longrightarrow>
        (\<forall>k q. map_of (planes (fst (fetchPlanes now_fetch now store net storageKey st))) k = Some q
             \<longrightarrow> map_of (planes st) k = Some q))"
proof -
  have up: "\<not> falsy_num (ac_lat r) \<and> \<not> falsy_num (ac_lon r) \<longrightarrow>
      upsert_plane now r (ps, V)
        = (AList.update (property_key (ac_hex r)) (plane_of now r) ps, insert (ac_hex r) V)
      \<and> map_of (fst (upsert_plane now r (ps, V))) (property_key (ac_hex r)) = Some (plane_of now r)
      \<and> (\<forall>k. k \<noteq> property_key (ac_hex r) \<longrightarrow> map_of (fst (upsert_plane now r (ps, V))) k = map_of ps k)"
    by (simp add: upsert_plane_def AList.update_conv')
  have key: "\<forall>h. ac_hex r = Some h \<longrightarrow> property_key (ac_hex r) = h"
    by (simp add: property_key_def)
  have fields: "hex (plane_of now r) = ac_hex r \<and> lat (plane_of now r) = ac_lat r
      \<and> lon (plane_of now r) = ac_lon r \<and> last_update (plane_of now r) = now"
    by (simp add: plane_of_def)
  have c1: "\<forall>f. ac_flight r = Some f \<and> f \<noteq> [] \<longrightarrow> callsign (plane_of now r) = Some (trim f)"
    by (simp add: plane_of_def truthy_str_def)
  have c2: "(ac_flight r = None \<or> ac_flight r = Some []) \<and> truthy_str (ac_r r)
        \<longrightarrow> callsign (plane_of now r) = ac_r r"
    by (auto simp: plane_of_def truthy_str_def)
  have c3: "(ac_flight r = None \<or> ac_flight r = Some []) \<and> \<not> truthy_str (ac_r r)
        \<longrightarrow> callsign (plane_of now r) = ac_hex r"
    by (auto simp: plane_of_def truthy_str_def)
  have e2e: "\<not> falsy_num (ac_lat r) \<and> \<not> falsy_num (ac_lon r)
       \<and> fst (cachedFetchJson now_fetch store net storageKey PLANE_FETCH_MS) = Inr \<lparr>ac = Some (pre @ r # post)\<rparr>
       \<and> (\<forall>q\<in>set post. property_key (ac_hex q) \<noteq> property_key (ac_hex r)) \<longrightarrow>
        map_of (planes (fst (fetchPlanes now_fetch now store net storageKey st))) (property_key (ac_hex r))
          = Some (plane_of now r)"
  proof (intro impI)
    assume a: "\<not> falsy_num (ac_lat r) \<and> \<not> falsy_num (ac_lon r)
       \<and> fst (cachedFetchJson now_fetch store net storageKey PLANE_FETCH_MS) = Inr \<lparr>ac = Some (pre @ r # post)\<rparr>
       \<and> (\<forall>q\<in>set post. property_key (ac_hex q) \<noteq> property_key (ac_hex r))"
    let ?k = "property_key (ac_hex r)"
    obtain ps0 V0 where s0: "fold (upsert_plane now) pre (planes st, {}) = (ps0, V0)"
      by (cases "fold (upsert_plane now) pre (planes st, {})") simp
    let ?ps1 = "AList.update ?k (plane_of now r) ps0"
    let ?s = "fold (upsert_plane now) post (?ps1, insert (ac_hex r) V0)"
    have all: "fold (upsert_plane now) (pre @ r # post) (planes st, {}) = ?s"
      using a by (simp add: s0 upsert_plane_def)
    have there: "map_of (fst ?s) ?k = Some (plane_of now r)"
      using fold_upsert_plane_other[of post ?k now ?ps1 "insert (ac_hex r) V0"] a
      by (simp add: AList.update_conv')
    have lu: "last_update (plane_of now r) = now" by (simp add: plane_of_def)
    have "map_of (cleanup now (snd ?s) (fst ?s)) ?k = Some (plane_of now r)"
      by (simp add: map_of_cleanup there lu)
    then show "map_of (planes (fst (fetchPlanes now_fetch now store net storageKey st))) ?k
          = Some (plane_of now r)"
      using a fetchPlanes_success[of now_fetch store net storageKey "\<lparr>ac = Some (pre @ r # post)\<rparr>" now st]
      by (simp only: all snapshot.simps option.case)
  qed
  have skip: "ac_lat r = None \<longrightarrow> upsert_plane now r (ps, V) = (ps, V)"
    by (simp add: upsert_plane_def falsy_num_def)
  have never: "ac_lat r = None
       \<and> fst (cachedFetchJson now_fetch store net storageKey PLANE_FETCH_MS) = Inr \<lparr>ac = Some [r]\<rparr> \<longrightarrow>
        (\<forall>k q. map_of (planes (fst (fetchPlanes now_fetch now store net storageKey st))) k = Some q
             \<longrightarrow> map_of (planes st) k = Some q)"
  proof (intro impI allI)
    fix k q
    assume a: "ac_lat r = None
       \<and> fst (cachedFetchJson now_fetch store net storageKey PLANE_FETCH_MS) = Inr \<lparr>ac = Some [r]\<rparr>"
      and b: "map_of (planes (fst (fetchPlanes now_fetch now store net storageKey st))) k = Some q"
    have "planes (fst (fetchPlanes now_fetch now store net storageKey st)) = cleanup now {} (planes st)"
      using a fetchPlanes_success[of now_fetch store net storageKey "\<lparr>ac = Some [r]\<rparr>" now st]
      by (simp add: upsert_plane_def falsy_num_def)
    then show "map_of (planes st) k = Some q"
      using b by (simp add: map_of_cleanup split: option.splits if_splits)
  qed
  show ?thesis using up key fields c1 c2 c3 e2e skip never by blast
qed


theorem valid_record_upserted_witness:
  "map_of (planes (fst (fetchPlanes 999 1000 \<lparr>items = (\<lambda>k. None), writable = True\<rparr>
        (Inr \<lparr>ac = Some [\<lparr>ac_hex = Some ''c0ffee'', ac_flight = None, ac_r = Some ''N123AB'',
                             ac_lat = None, ac_lon = Some (- 117), ac_alt_geom = Undefined,
                             ac_alt_baro = Number 9000\<rparr>,
                           \<lparr>ac_hex = Some ''a1b2c3'', ac_flight = Some ''UAL123  '', ac_r = Some ''N12345'',
                             ac_lat = Some 37, ac_lon = Some (- 118), ac_alt_geom = Number 31000,
                             ac_alt_baro = Number 30000\<rparr>]\<rparr>)
        ''planes_37.2317_-118.2951_200''
        \<lparr>satRecords = ([] :: unit sat list), planes = [],
         horizon = \<lparr>az = [], alt = []\<rparr>, plotInitialized = True\<rparr>))) ''a1b2c3''
     = Some \<lparr>hex = Some ''a1b2c3'', callsign = Some ''UAL123'', lat = Some 37, lon = Some (- 118),
             alt_ft = Number 31000, last_update = 1000\<rparr>
   \<and> upsert_plane 1000 \<lparr>ac_hex = Some ''c0ffee'', ac_flight = None, ac_r = Some ''N123AB'',
                             ac_lat = None, ac_lon = Some (- 117), ac_alt_geom = Undefined,
                             ac_alt_baro = Number 9000\<rparr> ([], {}) = ([], {})
   \<and> planes (fst (fetchPlanes 999 1000 \<lparr>items = (\<lambda>k. None), writable = True\<rparr>
        (Inr \<lparr>ac = Some [\<lparr>ac_hex = Some ''c0ffee'', ac_flight = None, ac_r = Some ''N123AB'',
                             ac_lat = None, ac_lon = Some (- 117), ac_alt_geom = Undefined,
                             ac_alt_baro = Number 9000\<rparr>]\<rparr>)
        ''planes_37.2317_-118.2951_200''
        \<lparr>satRecords = ([] :: unit sat list), planes = [],
         horizon = \<lparr>az = [], alt = []\<rparr>, plotInitialized = True\<rparr>)) = []
   \<and> callsign (plane_of 1000 \<lparr>ac_hex = Some ''c0ffee'', ac_flight = None, ac_r = Some ''N123AB'',
                             ac_lat = Some 36, ac_lon = Some (- 117), ac_alt_geom = Undefined,
                             ac_alt_baro = Number 9000\<rparr>) = Some ''N123AB''
   \<and> callsign (plane_of 1000 \<lparr>ac_hex = Some ''c0ffee'', ac_flight = Some [], ac_r = None,
                             ac_lat = Some 36, ac_lon = Some (- 117), ac_alt_geom = Undefined,
                             ac_alt_baro = Number 9000\<rparr>) = Some ''c0ffee''"
proof -
  define R where "R = \<lparr>ac_hex = Some ''a1b2c3'', ac_flight = Some ''UAL123  '', ac_r = Some ''N12345'',
                             ac_lat = Some 37, ac_lon = Some (- 118), ac_alt_geom = Number 31000,
                             ac_alt_baro = Number 30000\<rparr>"
  define Q where "Q = \<lparr>ac_hex = Some ''c0ffee'', ac_flight = None, ac_r = Some ''N123AB'',
                             ac_lat = None, ac_lon = Some (- 117), ac_alt_geom = Undefined,
                             ac_alt_baro = Number 9000\<rparr>"
  define A where "A = \<lparr>ac_hex = Some ''c0ffee'', ac_flight = None, ac_r = Some ''N123AB'',
                             ac_lat = Some 36, ac_lon = Some (- 117), ac_alt_geom = Undefined,
                             ac_alt_baro = Number 9000\<rparr>"
  define B where "B = \<lparr>ac_hex = Some ''c0ffee'', ac_flight = Some [], ac_r = None,
                             ac_lat = Some 36, ac_lon = Some (- 117), ac_alt_geom = Undefined,
                             ac_alt_baro = Number 9000\<rparr>"
  define ST where "ST = \<lparr>satRecords = ([] :: unit sat list), planes = [],
         horizon = \<lparr>az = [], alt = []\<rparr>, plotInitialized = True\<rparr>"
  let ?store = "\<lparr>items = (\<lambda>k. None), writable = True\<rparr> :: snapshot storage"
  let ?key = "''planes_37.2317_-118.2951_200''"
  note T = valid_record_upserted[where r = R and now = 1000 and now_fetch = 999 and store = ?store
      and net = "Inr \<lparr>ac = Some [Q, R]\<rparr>" and storageKey = ?key and pre = "[Q]" and post = "[]"
      and st = ST and ps = "[]" and V = "{}"]
  note U = valid_record_upserted[where r = Q and now = 1000 and now_fetch = 999 and store = ?store
      and net = "Inr \<lparr>ac = Some [Q]\<rparr>" and storageKey = ?key and pre = "[]" and post = "[]"
      and st = ST and ps = "[]" and V = "{}"]
  note TA = valid_record_upserted[where r = A and now = 1000 and now_fetch = 999 and store = ?store
      and net = "Inr \<lparr>ac = Some [A]\<rparr>" and storageKey = ?key and pre = "[]" and post = "[]"
      and st = ST and ps = "[]" and V = "{}"]
  note TB = valid_record_upserted[where r = B and now = 1000 and now_fetch = 999 and store = ?store
      and net = "Inr \<lparr>ac = Some [B]\<rparr>" and storageKey = ?key and pre = "[]" and post = "[]"
      and st = ST and ps = "[]" and V = "{}"]
  have f: "fst (cachedFetchJson 999 ?store (Inr \<lparr>ac = Some [Q, R]\<rparr>) ?key PLANE_FETCH_MS)
      = Inr \<lparr>ac = Some [Q, R]\<rparr>"
      "fst (cachedFetchJson 999 ?store (Inr \<lparr>ac = Some [Q]\<rparr>) ?key PLANE_FETCH_MS)
      = Inr \<lparr>ac = Some [Q]\<rparr>"
    by (simp_all add: cachedFetchJson_def cacheRead_def)
  have ok: "\<not> falsy_num (ac_lat R) \<and> \<not> falsy_num (ac_lon R)" by (simp add: R_def falsy_num_def)
  have k: "property_key (ac_hex R) = ''a1b2c3''" by (simp add: R_def property_key_def)
  have v: "plane_of 1000 R = \<lparr>hex = Some ''a1b2c3'', callsign = Some ''UAL123'', lat = Some 37,
      lon = Some (- 118), alt_ft = Number 31000, last_update = 1000\<rparr>"
    by (simp add: plane_of_def R_def truthy_str_def trim_def is_ws_def js_or_def)
  have w1: "map_of (planes (fst (fetchPlanes 999 1000 ?store (Inr \<lparr>ac = Some [Q, R]\<rparr>) ?key ST))) ''a1b2c3''
      = Some \<lparr>hex = Some ''a1b2c3'', callsign = Some ''UAL123'', lat = Some 37,
      lon = Some (- 118), alt_ft = Number 31000, last_update = 1000\<rparr>"
    using T f ok by (simp add: k v)
  have w2: "upsert_plane 1000 Q ([], {}) = ([], {})"
    using U by (simp add: Q_def)
  have none: "ac_lat Q = None" by (simp add: Q_def)
  have "\<forall>k q. map_of (planes (fst (fetchPlanes 999 1000 ?store (Inr \<lparr>ac = Some [Q]\<rparr>) ?key ST))) k = Some q
      \<longrightarrow> map_of (planes ST) k = Some q"
    using U none f(2) by blast
  then have "\<forall>k. map_of (planes (fst (fetchPlanes 999 1000 ?store (Inr \<lparr>ac = Some [Q]\<rparr>) ?key ST))) k = None"
    by (simp add: ST_def)
  then have w3: "planes (fst (fetchPlanes 999 1000 ?store (Inr \<lparr>ac = Some [Q]\<rparr>) ?key ST)) = []"
    by (metis map_of_eq_empty_iff)
  have w4: "callsign (plane_of 1000 A) = Some ''N123AB''"
    using TA by (simp add: A_def truthy_str_def)
  have w5: "callsign (plane_of 1000 B) = Some ''c0ffee''"
    using TB by (simp add: B_def truthy_str_def)
  show ?thesis using w1 w2 w3 w4 w5 unfolding R_def Q_def A_def B_def ST_def by blast
qed

text \<open>
  A record on the equator has a valid latitude, and the fetch leaves no entry for it.
\<close>

theorem equator_record_not_upserted:
  "planes (fst (fetchPlanes 999 1000 \<lparr>items = (\<lambda>k. None), writable = True\<rparr>
        (Inr \<lparr>ac = Some [\<lparr>ac_hex = Some ''e48c01'', ac_flight = Some ''TAM8070 '', ac_r = Some ''PT-MUA'',
                             ac_lat = Some 0, ac_lon = Some (- 50), ac_alt_geom = Number 36000,
                             ac_alt_baro = Number 35000\<rparr>]\<rparr>)
        ''planes_0.1_-50.1_200''
        \<lparr>satRecords = ([] :: unit sat list), planes = [],
         horizon = \<lparr>az = [], alt = []\<rparr>, plotInitialized = True\<rparr>)) = []"
  by (simp add: fetchPlanes_def cachedFetchJson_def cacheRead_def cacheWrite_def cleanup_def
      upsert_plane_def falsy_num_def PLANE_FETCH_MS_def Let_def)

text \<open>
  C10. A record whose latitude or longitude is zero is rejected by the coordinate
  guard, the same way as one whose latitude or longitude is absent: the callback
  leaves \<open>planes\<close> and the set of valid ids as they are, whatever the other fields hold,
  so a snapshot with the record has the effect of the snapshot without it.
\<close>

theorem zero_coordinate_rejected:
  "(ac_lat r = Some 0 \<or> ac_lon r = Some 0 \<longrightarrow>
      upsert_plane now r s = s
      \<and> fold (upsert_plane now) (pre @ r # post) s = fold (upsert_plane now) (pre @ post) s)
   \<and> (ac_lat r = None \<or> ac_lon r = None \<longrightarrow> upsert_plane now r s = s)
   \<and> ((ac_lat r = Some 0 \<or> ac_lon r = Some 0)
       \<and> fst (cachedFetchJson now_fetch store net storageKey PLANE_FETCH_MS)
            = Inr \<lparr>ac = Some (pre @ r # post)\<rparr>
       \<and> fst (cachedFetchJson now_fetch store net' storageKey PLANE_FETCH_MS)
            = Inr \<lparr>ac = Some (pre @ post)\<rparr> \<longrightarrow>
       planes (fst (fetchPlanes now_fetch now store net storageKey st))
         = planes (fst (fetchPlanes now_fetch now store net' storageKey st)))"
proof -
  have z: "ac_lat r = Some 0 \<or> ac_lon r = Some 0 \<longrightarrow> upsert_plane now r s = s" for s
    by (auto simp: upsert_plane_def falsy_num_def)
  have m: "ac_lat r = None \<or> ac_lon r = None \<longrightarrow> upsert_plane now r s = s"
    by (auto simp: upsert_plane_def falsy_num_def)
  have f: "ac_lat r = Some 0 \<or> ac_lon r = Some 0 \<longrightarrow>
      fold (upsert_plane now) (pre @ r # post) s = fold (upsert_plane now) (pre @ post) s" for s
    using z[of "fold (upsert_plane now) pre s"] by auto
  have e: "(ac_lat r = Some 0 \<or> ac_lon r = Some 0)
       \<and> fst (cachedFetchJson now_fetch store net storageKey PLANE_FETCH_MS)
            = Inr \<lparr>ac = Some (pre @ r # post)\<rparr>
       \<and> fst (cachedFetchJson now_fetch store net' storageKey PLANE_FETCH_MS)
            = Inr \<lparr>ac = Some (pre @ post)\<rparr> \<longrightarrow>
       planes (fst (fetchPlanes now_fetch now store net storageKey st))
         = planes (fst (fetchPlanes now_fetch now store net' storageKey st))"
  proof (intro impI)
    assume a: "(ac_lat r = Some 0 \<or> ac_lon r = Some 0)
       \<and> fst (cachedFetchJson now_fetch store net storageKey PLANE_FETCH_MS)
            = Inr \<lparr>ac = Some (pre @ r # post)\<rparr>
       \<and> fst (cachedFetchJson now_fetch store net' storageKey PLANE_FETCH_MS)
            = Inr \<lparr>ac = Some (pre @ post)\<rparr>"
    have "fold (upsert_plane now) (pre @ r # post) (planes st, {})
        = fold (upsert_plane now) (pre @ post) (planes st, {})"
      using a f[of "(planes st, {})"] by blast
    then show "planes (fst (fetchPlanes now_fetch now store net storageKey st))
         = planes (fst (fetchPlanes now_fetch now store net' storageKey st))"
      using a fetchPlanes_success[of now_fetch store net storageKey "\<lparr>ac = Some (pre @ r # post)\<rparr>" now st]
        fetchPlanes_success[of now_fetch store net' storageKey "\<lparr>ac = Some (pre @ post)\<rparr>" now st]
      by (simp only: snapshot.simps option.case)
  qed
  show ?thesis using z[of s] m f[of s] e by blast
qed

theorem zero_coordinate_rejected_witness:
  "upsert_plane 1000 \<lparr>ac_hex = Some ''406b2f'', ac_flight = Some ''BAW117  '', ac_r = Some ''G-XLEA'',
                       ac_lat = Some 51.5, ac_lon = Some 0, ac_alt_geom = Number 12000,
                       ac_alt_baro = Number 11900\<rparr> ([], {}) = ([], {})
   \<and> upsert_plane 1000 \<lparr>ac_hex = Some ''e48c01'', ac_flight = Some ''TAM8070 '', ac_r = Some ''PT-MUA'',
                       ac_lat = Some 0, ac_lon = Some (- 50.25), ac_alt_geom = Number 36000,
                       ac_alt_baro = Number 35000\<rparr> ([], {}) = ([], {})
   \<and> upsert_plane 1000 \<lparr>ac_hex = Some ''406b2f'', ac_flight = Some ''BAW117  '', ac_r = Some ''G-XLEA'',
                       ac_lat = Some 51.5, ac_lon = None, ac_alt_geom = Number 12000,
                       ac_alt_baro = Number 11900\<rparr> ([], {}) = ([], {})
   \<and> planes (fst (fetchPlanes 999 1000 \<lparr>items = (\<lambda>k. None), writable = True\<rparr>
        (Inr \<lparr>ac = Some [\<lparr>ac_hex = Some ''406b2f'', ac_flight = Some ''BAW117  '', ac_r = Some ''G-XLEA'',
                             ac_lat = Some 51.5, ac_lon = Some 0, ac_alt_geom = Number 12000,
                             ac_alt_baro = Number 11900\<rparr>]\<rparr>)
        ''planes_51.5_0.1_200''
        \<lparr>satRecords = ([] :: unit sat list), planes = [],
         horizon = \<lparr>az = [], alt = []\<rparr>, plotInitialized = True\<rparr>)) = []"
proof -
  define R where "R = \<lparr>ac_hex = Some ''406b2f'', ac_flight = Some ''BAW117  '', ac_r = Some ''G-XLEA'',
                       ac_lat = Some 51.5, ac_lon = Some 0, ac_alt_geom = Number 12000,
                       ac_alt_baro = Number 11900\<rparr>"
  define E where "E = \<lparr>ac_hex = Some ''e48c01'', ac_flight = Some ''TAM8070 '', ac_r = Some ''PT-MUA'',
                       ac_lat = Some 0, ac_lon = Some (- 50.25), ac_alt_geom = Number 36000,
                       ac_alt_baro = Number 35000\<rparr>"
  define M where "M = \<lparr>ac_hex = Some ''406b2f'', ac_flight = Some ''BAW117  '', ac_r = Some ''G-XLEA'',
                       ac_lat = Some 51.5, ac_lon = None, ac_alt_geom = Number 12000,
                       ac_alt_baro = Number 11900\<rparr>"
  define ST where "ST = \<lparr>satRecords = ([] :: unit sat list), planes = [],
         horizon = \<lparr>az = [], alt = []\<rparr>, plotInitialized = True\<rparr>"
  let ?store = "\<lparr>items = (\<lambda>k. None), writable = True\<rparr> :: snapshot storage"
  let ?key = "''planes_51.5_0.1_200''"
  note T = zero_coordinate_rejected[where r = R and now = 1000 and now_fetch = 999 and store = ?store
      and net = "Inr \<lparr>ac = Some [R]\<rparr>" and net' = "Inr \<lparr>ac = Some []\<rparr>" and storageKey = ?key
      and pre = "[]" and post = "[]" and st = ST and s = "([], {})"]
  note TE = zero_coordinate_rejected[where r = E and now = 1000 and now_fetch = 999 and store = ?store
      and net = "Inr \<lparr>ac = Some [E]\<rparr>" and net' = "Inr \<lparr>ac = Some []\<rparr>" and storageKey = ?key
      and pre = "[]" and post = "[]" and st = ST and s = "([], {})"]
  note TM = zero_coordinate_rejected[where r = M and now = 1000 and now_fetch = 999 and store = ?store
      and net = "Inr \<lparr>ac = Some [M]\<rparr>" and net' = "Inr \<lparr>ac = Some []\<rparr>" and storageKey = ?key
      and pre = "[]" and post = "[]" and st = ST and s = "([], {})"]
  have z: "ac_lon R = Some 0" by (simp add: R_def)
  have ze: "ac_lat E = Some 0" by (simp add: E_def)
  have zm: "ac_lon M = None" by (simp add: M_def)
  have f: "fst (cachedFetchJson 999 ?store (Inr \<lparr>ac = Some [R]\<rparr>) ?key PLANE_FETCH_MS) = Inr \<lparr>ac = Some [R]\<rparr>"
      "fst (cachedFetchJson 999 ?store (Inr \<lparr>ac = Some []\<rparr>) ?key PLANE_FETCH_MS) = Inr \<lparr>ac = Some []\<rparr>"
    by (simp_all add: cachedFetchJson_def cacheRead_def)
  have w1: "upsert_plane 1000 R ([], {}) = ([], {})" using T z by simp
  have w1e: "upsert_plane 1000 E ([], {}) = ([], {})" using TE ze by simp
  have w1m: "upsert_plane 1000 M ([], {}) = ([], {})" using TM zm by simp
  have e: "planes (fst (fetchPlanes 999 1000 ?store (Inr \<lparr>ac = Some []\<rparr>) ?key ST)) = []"
    by (simp add: fetchPlanes_def cachedFetchJson_def cacheRead_def cleanup_def ST_def Let_def)
  have w2: "planes (fst (fetchPlanes 999 1000 ?store (Inr \<lparr>ac = Some [R]\<rparr>) ?key ST)) = []"
    using T z f e by simp
  show ?thesis using w1 w1e w1m w2 unfolding R_def E_def M_def ST_def by blast
qed

section \<open>The orbital catalog\<close>

lemma tle_loop_well_formed:
  assumes "list_all (well_formed_triplet t2s) ts"
  shows "tle_loop t2s (triplet_lines ts @ rest) acc = tle_loop t2s rest (acc @ map (triplet_sat t2s) ts)"
  using assms
proof (induction ts arbitrary: acc)
  case Nil
  then show ?case by (simp add: triplet_lines_def)
next
  case (Cons t ts)
  obtain n l1 l2 where t: "t = (n, l1, l2)" by (cases t) auto
  have wf: "n \<noteq> []" "\<not> isl (t2s (trim l1) (trim l2))"
    using Cons.prems by (simp_all add: t well_formed_triplet_def)
  then obtain h where h: "t2s (trim l1) (trim l2) = Inr h" by (cases "t2s (trim l1) (trim l2)") auto
  have rest: "list_all (well_formed_triplet t2s) ts" using Cons.prems by simp
  have lines: "triplet_lines (t # ts) @ rest = n # l1 # l2 # (triplet_lines ts @ rest)"
    by (simp add: triplet_lines_def t)
  show ?case
    using Cons.IH[OF rest, of "acc @ [triplet_sat t2s t]"] wf(1)
    by (simp add: lines h) (simp add: t triplet_sat_def h)
qed

lemma tle_loop_short:
  assumes "n \<noteq> []" "length short < 2"
  shows "tle_loop t2s (n # short) acc = (acc, Some TypeError)"
proof (cases short)
  case Nil
  then show ?thesis using assms by simp
next
  case (Cons a as)
  then have "as = []" using assms(2) by simp
  then show ?thesis using Cons assms(1) by simp
qed

lemma fetchTLEs_retrieved:
  assumes "fst (cachedFetchText now store net ''tles_active'' TLE_FETCH_MS) = Inr payload"
  shows "fst (fetchTLEs t2s now store net st)
    = st\<lparr>satRecords := fst (tle_loop t2s (split_on CHR 0x0A payload) [])\<rparr>"
  using assms
  by (cases "cachedFetchText now store net ''tles_active'' TLE_FETCH_MS") (simp add: fetchTLEs_def)

text \<open>
  C3, as the code has it. The lines are taken three at a time. A group whose name line
  is empty is dropped and the loop goes on with the groups after it. The well-formed
  triplets before the first malformed one yield their records, in order; at a
  non-empty name line on whose element lines the parser raises, or whose element lines
  are missing because the text ends, the loop stops with the records built so far:
  the lines after it are not looked at.
\<close>

theorem malformed_triplet_stops_catalog:
  "(list_all (well_formed_triplet t2s) ts \<longrightarrow>
      tle_loop t2s (triplet_lines ts) [] = (map (triplet_sat t2s) ts, None))
   \<and> (list_all (well_formed_triplet t2s) ts \<longrightarrow>
      tle_loop t2s (triplet_lines ts @ [] # l1 # l2 # rest) []
        = tle_loop t2s rest (map (triplet_sat t2s) ts))
   \<and> (list_all (well_formed_triplet t2s) ts \<and> n \<noteq> [] \<and> t2s (trim l1) (trim l2) = Inl e \<longrightarrow>
      tle_loop t2s (triplet_lines ts @ n # l1 # l2 # rest) [] = (map (triplet_sat t2s) ts, Some e))
   \<and> (list_all (well_formed_triplet t2s) ts \<and> n \<noteq> [] \<and> length short < 2 \<longrightarrow>
      tle_loop t2s (triplet_lines ts @ n # short) [] = (map (triplet_sat t2s) ts, Some TypeError))
   \<and> (fst (cachedFetchText now store net ''tles_active'' TLE_FETCH_MS) = Inr payload \<longrightarrow>
      satRecords (fst (fetchTLEs t2s now store net st))
        = fst (tle_loop t2s (split_on CHR 0x0A payload) []))"
proof -
  have a: "list_all (well_formed_triplet t2s) ts \<longrightarrow>
      tle_loop t2s (triplet_lines ts) [] = (map (triplet_sat t2s) ts, None)"
    using tle_loop_well_formed[of t2s ts "[]" "[]"] by simp
  have b: "list_all (well_formed_triplet t2s) ts \<longrightarrow>
      tle_loop t2s (triplet_lines ts @ [] # l1 # l2 # rest) []
        = tle_loop t2s rest (map (triplet_sat t2s) ts)"
    using tle_loop_well_formed[of t2s ts "[] # l1 # l2 # rest" "[]"] by simp
  have c: "list_all (well_formed_triplet t2s) ts \<and> n \<noteq> [] \<and> t2s (trim l1) (trim l2) = Inl e \<longrightarrow>
      tle_loop t2s (triplet_lines ts @ n # l1 # l2 # rest) [] = (map (triplet_sat t2s) ts, Some e)"
    using tle_loop_well_formed[of t2s ts "n # l1 # l2 # rest" "[]"] by simp
  have d: "list_all (well_formed_triplet t2s) ts \<and> n \<noteq> [] \<and> length short < 2 \<longrightarrow>
      tle_loop t2s (triplet_lines ts @ n # short) [] = (map (triplet_sat t2s) ts, Some TypeError)"
    using tle_loop_well_formed[of t2s ts "n # short" "[]"] tle_loop_short[of n short t2s]
    by simp
  have f: "fst (cachedFetchText now store net ''tles_active'' TLE_FETCH_MS) = Inr payload \<longrightarrow>
      satRecords (fst (fetchTLEs t2s now store net st))
        = fst (tle_loop t2s (split_on CHR 0x0A payload) [])"
    by (simp add: fetchTLEs_retrieved)
  show ?thesis using a b c d f by blast
qed


theorem malformed_triplet_stops_catalog_witness:
  "tle_loop (\<lambda>a b. if take 1 a = ''1'' \<and> take 1 b = ''2'' then Inr (a, b) else Inl LibraryError)
      [''ISS (ZARYA)   '', ''1 25544U 98067A'', ''2 25544  51.6400'',
       ''BROKEN'', ''garbage'', ''more garbage'',
       ''GPS BIIR-2'', ''1 24876U 97035A'', ''2 24876  55.5000''] []
     = ([\<lparr>name = ''ISS (ZARYA)'', group = ''OTHER'', satrec = (''1 25544U 98067A'', ''2 25544  51.6400'')\<rparr>],
        Some LibraryError)
   \<and> tle_loop (\<lambda>a b. if take 1 a = ''1'' \<and> take 1 b = ''2'' then Inr (a, b) else Inl LibraryError)
      [''ISS (ZARYA)   '', ''1 25544U 98067A'', ''2 25544  51.6400'', ''GPS BIIR-2'', ''1 24876U 97035A''] []
     = ([\<lparr>name = ''ISS (ZARYA)'', group = ''OTHER'', satrec = (''1 25544U 98067A'', ''2 25544  51.6400'')\<rparr>],
        Some TypeError)
   \<and> tle_loop (\<lambda>a b. if take 1 a = ''1'' \<and> take 1 b = ''2'' then Inr (a, b) else Inl LibraryError)
      [''ISS (ZARYA)   '', ''1 25544U 98067A'', ''2 25544  51.6400''] []
     = ([\<lparr>name = ''ISS (ZARYA)'', group = ''OTHER'', satrec = (''1 25544U 98067A'', ''2 25544  51.6400'')\<rparr>],
        None)
   \<and> tle_loop (\<lambda>a b. if take 1 a = ''1'' \<and> take 1 b = ''2'' then Inr (a, b) else Inl LibraryError)
      [''ISS (ZARYA)   '', ''1 25544U 98067A'', ''2 25544  51.6400'',
       [], ''garbage'', ''more garbage'',
       ''GPS BIIR-2'', ''1 24876U 97035A'', ''2 24876  55.5000''] []
     = ([\<lparr>name = ''ISS (ZARYA)'', group = ''OTHER'', satrec = (''1 25544U 98067A'', ''2 25544  51.6400'')\<rparr>,
         \<lparr>name = ''GPS BIIR-2'', group = ''GPS'', satrec = (''1 24876U 97035A'', ''2 24876  55.5000'')\<rparr>],
        None)
   \<and> satRecords (fst (fetchTLEs
        (\<lambda>a b. if take 1 a = ''1'' \<and> take 1 b = ''2'' then Inr (a, b) else Inl LibraryError)
        0 \<lparr>items = (\<lambda>k. None), writable = True\<rparr>
        (Inr (''ISS (ZARYA)   '' @ [CHR 0x0A] @ ''1 25544U 98067A'' @ [CHR 0x0A] @ ''2 25544  51.6400''
              @ [CHR 0x0A] @ ''BROKEN'' @ [CHR 0x0A] @ ''garbage''))
        \<lparr>satRecords = [], planes = [], horizon = \<lparr>az = [], alt = []\<rparr>, plotInitialized = False\<rparr>))
     = [\<lparr>name = ''ISS (ZARYA)'', group = ''OTHER'', satrec = (''1 25544U 98067A'', ''2 25544  51.6400'')\<rparr>]"
proof -
  define P :: "string \<Rightarrow> string \<Rightarrow> error + string \<times> string"
    where "P = (\<lambda>a b. if take 1 a = ''1'' \<and> take 1 b = ''2'' then Inr (a, b) else Inl LibraryError)"
  define T where "T = [(''ISS (ZARYA)   '', ''1 25544U 98067A'', ''2 25544  51.6400'')]"
  define X where "X = ''ISS (ZARYA)   '' @ [CHR 0x0A] @ ''1 25544U 98067A'' @ [CHR 0x0A] @ ''2 25544  51.6400''
              @ [CHR 0x0A] @ ''BROKEN'' @ [CHR 0x0A] @ ''garbage''"
  define G where "G = [''GPS BIIR-2'', ''1 24876U 97035A'', ''2 24876  55.5000'']"
  let ?store = "\<lparr>items = (\<lambda>k. None), writable = True\<rparr> :: string storage"
  let ?st = "\<lparr>satRecords = [], planes = [], horizon = \<lparr>az = [], alt = []\<rparr>, plotInitialized = False\<rparr>
      :: (string \<times> string) sk_state"
  note A = malformed_triplet_stops_catalog[where ?t2s.0 = P and ts = T and n = "''BROKEN''"
      and ?l1.0 = "''garbage''" and ?l2.0 = "''more garbage''" and e = LibraryError
      and rest = G and short = "[''garbage'']" and now = 0 and store = ?store and net = "Inr X"
      and payload = X and st = ?st]
  note B = malformed_triplet_stops_catalog[where ?t2s.0 = P and ts = T and n = "''GPS BIIR-2''"
      and ?l1.0 = "''garbage''" and ?l2.0 = "''more garbage''" and e = LibraryError
      and rest = "[]" and short = "[''1 24876U 97035A'']" and now = 0 and store = ?store
      and net = "Inr X" and payload = X and st = ?st]
  have wf: "list_all (well_formed_triplet P) T"
    by (simp add: T_def well_formed_triplet_def P_def trim_def is_ws_def)
  have bad: "P (trim ''garbage'') (trim ''more garbage'') = Inl LibraryError"
    by (simp add: P_def trim_def is_ws_def)
  have grp: "getGroup ''ISS (ZARYA)'' = ''OTHER''" "getGroup ''GPS BIIR-2'' = ''GPS''"
    by (simp_all add: getGroup_def sublist_code)
  have recs: "map (triplet_sat P) T
      = [\<lparr>name = ''ISS (ZARYA)'', group = ''OTHER'', satrec = (''1 25544U 98067A'', ''2 25544  51.6400'')\<rparr>]"
    by (simp add: T_def triplet_sat_def trim_def is_ws_def grp) (simp add: P_def)
  have w1: "tle_loop P ([''ISS (ZARYA)   '', ''1 25544U 98067A'', ''2 25544  51.6400'',
       ''BROKEN'', ''garbage'', ''more garbage''] @ G) []
     = ([\<lparr>name = ''ISS (ZARYA)'', group = ''OTHER'', satrec = (''1 25544U 98067A'', ''2 25544  51.6400'')\<rparr>],
        Some LibraryError)"
    using A wf bad recs by (simp add: triplet_lines_def T_def)
  have w2: "tle_loop P [''ISS (ZARYA)   '', ''1 25544U 98067A'', ''2 25544  51.6400'',
       ''GPS BIIR-2'', ''1 24876U 97035A''] []
     = ([\<lparr>name = ''ISS (ZARYA)'', group = ''OTHER'', satrec = (''1 25544U 98067A'', ''2 25544  51.6400'')\<rparr>],
        Some TypeError)"
    using B wf recs by (simp add: triplet_lines_def T_def)
  have w3: "tle_loop P [''ISS (ZARYA)   '', ''1 25544U 98067A'', ''2 25544  51.6400''] []
     = ([\<lparr>name = ''ISS (ZARYA)'', group = ''OTHER'', satrec = (''1 25544U 98067A'', ''2 25544  51.6400'')\<rparr>],
        None)"
    using A wf recs by (simp add: triplet_lines_def T_def)
  have tail: "tle_loop P G
      [\<lparr>name = ''ISS (ZARYA)'', group = ''OTHER'', satrec = (''1 25544U 98067A'', ''2 25544  51.6400'')\<rparr>]
     = ([\<lparr>name = ''ISS (ZARYA)'', group = ''OTHER'', satrec = (''1 25544U 98067A'', ''2 25544  51.6400'')\<rparr>,
         \<lparr>name = ''GPS BIIR-2'', group = ''GPS'', satrec = (''1 24876U 97035A'', ''2 24876  55.5000'')\<rparr>],
        None)"
    by (simp add: G_def P_def trim_def is_ws_def grp)
  have "tle_loop P (triplet_lines T @ [] # ''garbage'' # ''more garbage'' # G) []
      = tle_loop P G (map (triplet_sat P) T)"
    using A wf by blast
  then have w4: "tle_loop P ([''ISS (ZARYA)   '', ''1 25544U 98067A'', ''2 25544  51.6400'',
       [], ''garbage'', ''more garbage''] @ G) []
     = ([\<lparr>name = ''ISS (ZARYA)'', group = ''OTHER'', satrec = (''1 25544U 98067A'', ''2 25544  51.6400'')\<rparr>,
         \<lparr>name = ''GPS BIIR-2'', group = ''GPS'', satrec = (''1 24876U 97035A'', ''2 24876  55.5000'')\<rparr>],
        None)"
    by (simp add: recs tail) (simp add: triplet_lines_def T_def)
  have got: "fst (cachedFetchText 0 ?store (Inr X) ''tles_active'' TLE_FETCH_MS) = Inr X"
    by (simp add: cachedFetchText_def cacheRead_def)
  have lines: "split_on CHR 0x0A X = triplet_lines T @ ''BROKEN'' # [''garbage'']"
    by (simp add: X_def T_def triplet_lines_def)
  have "tle_loop P (triplet_lines T @ ''BROKEN'' # [''garbage'']) [] = (map (triplet_sat P) T, Some TypeError)"
    using A wf by simp
  then have "fst (tle_loop P (split_on CHR 0x0A X) []) = map (triplet_sat P) T"
    by (simp only: lines fst_conv)
  moreover have "satRecords (fst (fetchTLEs P 0 ?store (Inr X) ?st)) = fst (tle_loop P (split_on CHR 0x0A X) [])"
    using A got by blast
  ultimately have w5: "satRecords (fst (fetchTLEs P 0 ?store (Inr X) ?st))
      = [\<lparr>name = ''ISS (ZARYA)'', group = ''OTHER'', satrec = (''1 25544U 98067A'', ''2 25544  51.6400'')\<rparr>]"
    by (simp only: recs)
  show ?thesis using w1 w2 w3 w4 w5 unfolding P_def X_def G_def by simp
qed

text \<open>
  A name line whose element lines are missing, followed by a well-formed triplet: the
  loop groups the name line with the two lines after it, and the well-formed triplet
  gets no record.
\<close>

theorem malformed_triplet_not_dropped:
  "satRecords (fst (fetchTLEs (\<lambda>a b. Inr (a, b)) 0 \<lparr>items = (\<lambda>k. None), writable = True\<rparr>
        (Inr (''SAT-A'' @ [CHR 0x0A] @ ''SAT-B'' @ [CHR 0x0A] @ ''1 24876U'' @ [CHR 0x0A] @ ''2 24876''))
        \<lparr>satRecords = [], planes = [], horizon = \<lparr>az = [], alt = []\<rparr>, plotInitialized = False\<rparr>))
     = [\<lparr>name = ''SAT-A'', group = ''OTHER'', satrec = (''SAT-B'', ''1 24876U'')\<rparr>]"
  by (simp add: fetchTLEs_def cachedFetchText_def cacheRead_def cacheWrite_def TLE_FETCH_MS_def
      trim_def is_ws_def getGroup_def sublist_code)


text \<open>
  C2, as the code has it. When the retrieval of the catalog text fails, the state is
  retained as it was. When a text is retrieved, the catalog is rebuilt from that text
  alone, starting from the empty list, with the other fields untouched: whatever the
  previous catalog held, none of it is mixed in; and when every triplet of the text is
  well formed the catalog afterwards is the whole new one, the record of every triplet
  in order. The assignment and the loop run after the \<open>await\<close> without suspending, so
  no state between the one before and the one after the run can be observed.
\<close>

theorem catalog_replaced_or_retained:
  "(cacheRead now store ''tles_active'' TLE_FETCH_MS = None \<longrightarrow>
      fetchTLEs t2s now store (Inl e) st = (st, store))
   \<and> (fst (cachedFetchText now store net ''tles_active'' TLE_FETCH_MS) = Inl e \<longrightarrow>
      fst (fetchTLEs t2s now store net st) = st)
   \<and> (fst (cachedFetchText now store net ''tles_active'' TLE_FETCH_MS) = Inr payload
       \<and> list_all (well_formed_triplet t2s) ts
       \<and> (split_on CHR 0x0A payload = triplet_lines ts
           \<or> split_on CHR 0x0A payload = triplet_lines ts @ [[]]) \<longrightarrow>
      fst (fetchTLEs t2s now store net st) = st\<lparr>satRecords := map (triplet_sat t2s) ts\<rparr>)
   \<and> (fst (cachedFetchText now store net ''tles_active'' TLE_FETCH_MS) = Inr payload \<longrightarrow>
      satRecords (fst (fetchTLEs t2s now store net (st\<lparr>satRecords := old\<rparr>)))
        = satRecords (fst (fetchTLEs t2s now store net st))
      \<and> planes (fst (fetchTLEs t2s now store net st)) = planes st
      \<and> horizon (fst (fetchTLEs t2s now store net st)) = horizon st
      \<and> plotInitialized (fst (fetchTLEs t2s now store net st)) = plotInitialized st)"
proof -
  have a: "cacheRead now store ''tles_active'' TLE_FETCH_MS = None \<longrightarrow>
      fetchTLEs t2s now store (Inl e) st = (st, store)"
    by (simp add: fetchTLEs_def cachedFetchText_def)
  have b: "fst (cachedFetchText now store net ''tles_active'' TLE_FETCH_MS) = Inl e \<longrightarrow>
      fst (fetchTLEs t2s now store net st) = st"
    by (cases "cachedFetchText now store net ''tles_active'' TLE_FETCH_MS") (simp add: fetchTLEs_def)
  have c: "fst (cachedFetchText now store net ''tles_active'' TLE_FETCH_MS) = Inr payload
       \<and> list_all (well_formed_triplet t2s) ts
       \<and> (split_on CHR 0x0A payload = triplet_lines ts
           \<or> split_on CHR 0x0A payload = triplet_lines ts @ [[]]) \<longrightarrow>
      fst (fetchTLEs t2s now store net st) = st\<lparr>satRecords := map (triplet_sat t2s) ts\<rparr>"
  proof (intro impI)
    assume h: "fst (cachedFetchText now store net ''tles_active'' TLE_FETCH_MS) = Inr payload
       \<and> list_all (well_formed_triplet t2s) ts
       \<and> (split_on CHR 0x0A payload = triplet_lines ts
           \<or> split_on CHR 0x0A payload = triplet_lines ts @ [[]])"
    have "tle_loop t2s (triplet_lines ts) [] = (map (triplet_sat t2s) ts, None)"
      using h tle_loop_well_formed[of t2s ts "[]" "[]"] by simp
    moreover have "tle_loop t2s (triplet_lines ts @ [[]]) [] = (map (triplet_sat t2s) ts, None)"
      using h tle_loop_well_formed[of t2s ts "[[]]" "[]"] by simp
    ultimately have "fst (tle_loop t2s (split_on CHR 0x0A payload) []) = map (triplet_sat t2s) ts"
      using h by auto
    then show "fst (fetchTLEs t2s now store net st) = st\<lparr>satRecords := map (triplet_sat t2s) ts\<rparr>"
      using h by (simp add: fetchTLEs_retrieved)
  qed
  have d: "fst (cachedFetchText now store net ''tles_active'' TLE_FETCH_MS) = Inr payload \<longrightarrow>
      satRecords (fst (fetchTLEs t2s now store net (st\<lparr>satRecords := old\<rparr>)))
        = satRecords (fst (fetchTLEs t2s now store net st))
      \<and> planes (fst (fetchTLEs t2s now store net st)) = planes st
      \<and> horizon (fst (fetchTLEs t2s now store net st)) = horizon st
      \<and> plotInitialized (fst (fetchTLEs t2s now store net st)) = plotInitialized st"
    by (simp add: fetchTLEs_retrieved)
  show ?thesis using a b c d by blast
qed

theorem catalog_replaced_or_retained_witness:
  "fetchTLEs (\<lambda>a b. Inr (a, b)) 0 \<lparr>items = (\<lambda>k. None), writable = True\<rparr> (Inl NetworkError)
      \<lparr>satRecords = [\<lparr>name = ''OLD SAT'', group = ''OTHER'', satrec = (''1 old'', ''2 old'')\<rparr>],
       planes = [], horizon = \<lparr>az = [], alt = []\<rparr>, plotInitialized = True\<rparr>
     = (\<lparr>satRecords = [\<lparr>name = ''OLD SAT'', group = ''OTHER'', satrec = (''1 old'', ''2 old'')\<rparr>],
         planes = [], horizon = \<lparr>az = [], alt = []\<rparr>, plotInitialized = True\<rparr>,
        \<lparr>items = (\<lambda>k. None), writable = True\<rparr>)
   \<and> fst (fetchTLEs (\<lambda>a b. Inr (a, b)) 0 \<lparr>items = (\<lambda>k. None), writable = True\<rparr>
        (Inr (''GPS BIIR-2  '' @ [CHR 0x0A] @ ''1 24876U'' @ [CHR 0x0A] @ ''2 24876'' @ [CHR 0x0A]))
        \<lparr>satRecords = [\<lparr>name = ''OLD SAT'', group = ''OTHER'', satrec = (''1 old'', ''2 old'')\<rparr>],
         planes = [], horizon = \<lparr>az = [], alt = []\<rparr>, plotInitialized = True\<rparr>)
     = \<lparr>satRecords = [\<lparr>name = ''GPS BIIR-2'', group = ''GPS'', satrec = (''1 24876U'', ''2 24876'')\<rparr>],
        planes = [], horizon = \<lparr>az = [], alt = []\<rparr>, plotInitialized = True\<rparr>
   \<and> satRecords (fst (fetchTLEs (\<lambda>a b. Inr (a, b)) 0 \<lparr>items = (\<lambda>k. None), writable = True\<rparr>
        (Inr (''GPS BIIR-2  '' @ [CHR 0x0A] @ ''1 24876U'' @ [CHR 0x0A] @ ''2 24876'' @ [CHR 0x0A]))
        \<lparr>satRecords = [], planes = [], horizon = \<lparr>az = [], alt = []\<rparr>, plotInitialized = True\<rparr>))
     = [\<lparr>name = ''GPS BIIR-2'', group = ''GPS'', satrec = (''1 24876U'', ''2 24876'')\<rparr>]"
proof -
  define F :: "string \<Rightarrow> string \<Rightarrow> error + string \<times> string" where "F = (\<lambda>a b. Inr (a, b))"
  define ST where "ST = \<lparr>satRecords = [\<lparr>name = ''OLD SAT'', group = ''OTHER'', satrec = (''1 old'', ''2 old'')\<rparr>],
       planes = [], horizon = \<lparr>az = [], alt = []\<rparr>, plotInitialized = True\<rparr>"
  define X where "X = ''GPS BIIR-2  '' @ [CHR 0x0A] @ ''1 24876U'' @ [CHR 0x0A] @ ''2 24876'' @ [CHR 0x0A]"
  define T where "T = [(''GPS BIIR-2  '', ''1 24876U'', ''2 24876'')]"
  let ?store = "\<lparr>items = (\<lambda>k. None), writable = True\<rparr> :: string storage"
  note A = catalog_replaced_or_retained[where ?t2s.0 = F and now = 0 and store = ?store
      and net = "Inr X" and e = NetworkError and payload = X and ts = T and st = ST and old = "[]"]
  note N = catalog_replaced_or_retained[where ?t2s.0 = F and now = 0 and store = ?store
      and net = "Inl NetworkError" and e = NetworkError and payload = X and ts = T and st = ST and old = "[]"]
  have miss: "cacheRead 0 ?store ''tles_active'' TLE_FETCH_MS = None" by (simp add: cacheRead_def)
  have failed: "fst (cachedFetchText 0 ?store (Inl NetworkError) ''tles_active'' TLE_FETCH_MS) = Inl NetworkError"
    by (simp add: cachedFetchText_def cacheRead_def)
  have got: "fst (cachedFetchText 0 ?store (Inr X) ''tles_active'' TLE_FETCH_MS) = Inr X"
    by (simp add: cachedFetchText_def cacheRead_def)
  have wf: "list_all (well_formed_triplet F) T"
    by (simp add: T_def well_formed_triplet_def F_def)
  have lines: "split_on CHR 0x0A X = triplet_lines T @ [[]]"
    by (simp add: X_def T_def triplet_lines_def)
  have recs: "map (triplet_sat F) T
      = [\<lparr>name = ''GPS BIIR-2'', group = ''GPS'', satrec = (''1 24876U'', ''2 24876'')\<rparr>]"
    by (simp add: T_def triplet_sat_def F_def trim_def is_ws_def getGroup_def sublist_code)
  have w1: "fetchTLEs F 0 ?store (Inl NetworkError) ST = (ST, ?store)"
    using A miss by simp
  have w1': "fst (fetchTLEs F 0 ?store (Inl NetworkError) ST) = ST"
    using N failed by blast
  have w2: "fst (fetchTLEs F 0 ?store (Inr X) ST)
      = ST\<lparr>satRecords := [\<lparr>name = ''GPS BIIR-2'', group = ''GPS'', satrec = (''1 24876U'', ''2 24876'')\<rparr>]\<rparr>"
    using A got wf lines recs by simp
  have "satRecords (fst (fetchTLEs F 0 ?store (Inr X) (ST\<lparr>satRecords := []\<rparr>)))
      = satRecords (fst (fetchTLEs F 0 ?store (Inr X) ST))"
    using A got by blast
  then have w3: "satRecords (fst (fetchTLEs F 0 ?store (Inr X) (ST\<lparr>satRecords := []\<rparr>)))
      = [\<lparr>name = ''GPS BIIR-2'', group = ''GPS'', satrec = (''1 24876U'', ''2 24876'')\<rparr>]"
    by (simp add: w2)
  show ?thesis using w1 w1' w2 w3 unfolding F_def ST_def X_def by simp
qed

text \<open>
  A retrieved text that is one line only (the catalog server's plain-text refusal):
  the loop raises on the missing element lines, and the previous catalog is gone.
\<close>

theorem parse_error_loses_catalog:
  "satRecords (fst (fetchTLEs (\<lambda>a b. Inr (a, b)) 0 \<lparr>items = (\<lambda>k. None), writable = True\<rparr>
        (Inr ''No GP data found'')
        \<lparr>satRecords = [\<lparr>name = ''OLD SAT'', group = ''OTHER'', satrec = (''1 old'', ''2 old'')\<rparr>],
         planes = [], horizon = \<lparr>az = [], alt = []\<rparr>, plotInitialized = True\<rparr>)) = []
   \<and> snd (tle_loop (\<lambda>a b. Inr (a, b) :: error + string \<times> string)
            (split_on CHR 0x0A ''No GP data found'') []) = Some TypeError"
  by (simp add: fetchTLEs_def cachedFetchText_def cacheRead_def cacheWrite_def TLE_FETCH_MS_def)

section \<open>The terrain profile loader\<close>

lemma split_on_first_line:
  "c \<notin> set h \<Longrightarrow> split_on c (h @ c # body) = h # split_on c body"
proof (induction h)
  case Nil
  then show ?case by simp
next
  case (Cons x h)
  then show ?case by auto
qed

lemma comparator_positive:
  "a \<noteq> NaN \<Longrightarrow> b \<noteq> NaN \<Longrightarrow> js_gt (js_sub a b) (Num 0) = js_lt b a"
  by (cases a; cases b) (auto simp: js_gt_def js_sub_def)

lemma js_lt_asym: "js_lt a b \<Longrightarrow> \<not> js_lt b a"
  by (cases a; cases b) auto

lemma js_not_lt_trans:
  "a \<noteq> NaN \<Longrightarrow> b \<noteq> NaN \<Longrightarrow> c \<noteq> NaN \<Longrightarrow> \<not> js_lt b a \<Longrightarrow> \<not> js_lt c b \<Longrightarrow> \<not> js_lt c a"
  by (cases a; cases b; cases c) auto

lemma mset_sort_insert: "mset (sort_insert x ys) = add_mset x (mset ys)"
  by (induction ys) auto

lemma mset_sort_by_az: "mset (sort_by_az xs) = mset xs"
  by (induction xs) (auto simp: sort_by_az_def mset_sort_insert)

lemma set_sort_insert: "set (sort_insert x ys) = insert x (set ys)"
  by (induction ys) auto

lemma sorted_sort_insert:
  assumes "fst x \<noteq> NaN" "\<forall>y\<in>set ys. fst y \<noteq> NaN"
    and "sorted_wrt (\<lambda>p q. \<not> js_lt (fst q) (fst p)) ys"
  shows "sorted_wrt (\<lambda>p q. \<not> js_lt (fst q) (fst p)) (sort_insert x ys)"
  using assms
proof (induction ys)
  case Nil
  then show ?case by simp
next
  case (Cons y ys)
  have cmp: "js_gt (js_sub (fst x) (fst y)) (Num 0) = js_lt (fst y) (fst x)"
    using Cons.prems by (simp add: comparator_positive)
  show ?case
  proof (cases "js_lt (fst y) (fst x)")
    case True
    have "\<not> js_lt (fst x) (fst y)" using True by (rule js_lt_asym)
    then show ?thesis using True Cons by (auto simp: cmp set_sort_insert)
  next
    case False
    have "\<forall>z\<in>set ys. \<not> js_lt (fst z) (fst x)"
    proof
      fix z assume z: "z \<in> set ys"
      then have "\<not> js_lt (fst z) (fst y)" using Cons.prems(3) by simp
      then show "\<not> js_lt (fst z) (fst x)"
        using js_not_lt_trans[of "fst x" "fst y" "fst z"] False Cons.prems(1,2) z by simp
    qed
    then show ?thesis using False Cons.prems by (simp add: cmp)
  qed
qed

lemma sorted_sort_by_az:
  assumes "\<forall>x\<in>set xs. fst x \<noteq> NaN"
  shows "sorted_wrt (\<lambda>p q. \<not> js_lt (fst q) (fst p)) (sort_by_az xs)"
  using assms
proof (induction xs)
  case Nil
  then show ?case by (simp add: sort_by_az_def)
next
  case (Cons x xs)
  have tail: "sorted_wrt (\<lambda>p q. \<not> js_lt (fst q) (fst p)) (sort_by_az xs)"
    using Cons by simp
  have keys: "\<forall>y\<in>set (sort_by_az xs). fst y \<noteq> NaN"
    using Cons.prems mset_sort_by_az[of xs] by (metis list.set_intros(2) set_mset_mset)
  have "sort_by_az (x # xs) = sort_insert x (sort_by_az xs)" by (simp add: sort_by_az_def)
  then show ?case using sorted_sort_insert[OF _ keys tail, of x] Cons.prems by simp
qed

lemma all_Num_map:
  "\<forall>x\<in>set xs. \<exists>r. x = Num r \<Longrightarrow> \<exists>rs. xs = map Num rs"
proof (induction xs)
  case Nil
  then show ?case by simp
next
  case (Cons x xs)
  then obtain r rs where "x = Num r" "xs = map Num rs" by auto
  then have "x # xs = map Num (r # rs)" by simp
  then show ?case by (rule exI)
qed

lemma sorted_Num:
  "sorted_wrt (\<lambda>a b. \<not> js_lt b a) (map Num rs) \<Longrightarrow> sorted rs"
  by (induction rs) (auto simp: not_less)

lemma csv_rows_append: "csv_rows (xs @ ys) = csv_rows xs @ csv_rows ys"
  by (induction xs) auto


lemma horizon_parseHorizonCsv:
  "horizon (parseHorizonCsv payload st)
     = \<lparr>az = map fst (sort_by_az (csv_rows (drop 1 (split_on CHR 0x0A payload)))),
        alt = map snd (sort_by_az (csv_rows (drop 1 (split_on CHR 0x0A payload))))\<rparr>"
  by (simp add: parseHorizonCsv_def Let_def)

text \<open>
  C9, as the code has it. The loader skips the first line, whatever it holds, and
  replaces the stored profile as a whole: the new profile depends on the text alone.
  A line with fewer than three comma-separated fields is dropped; every other line is
  kept with \<open>parseFloat\<close> of its second and third field as azimuth and elevation, which
  is NaN where the field is not numeric. The profile holds exactly the kept samples,
  azimuth and elevation in step; when no kept azimuth is NaN it is sorted ascending by
  azimuth whatever the order of the lines, and when all kept fields are finite numbers
  it is a profile of finite samples with sorted azimuths.
\<close>

theorem parseHorizonCsv_profile:
  "horizon (parseHorizonCsv payload st) = horizon (parseHorizonCsv payload st')
   \<and> satRecords (parseHorizonCsv payload st) = satRecords st
   \<and> planes (parseHorizonCsv payload st) = planes st
   \<and> (CHR 0x0A \<notin> set hdr \<and> CHR 0x0A \<notin> set hdr' \<longrightarrow>
        horizon (parseHorizonCsv (hdr @ CHR 0x0A # body) st)
          = horizon (parseHorizonCsv (hdr' @ CHR 0x0A # body) st))
   \<and> length (alt (horizon (parseHorizonCsv payload st)))
        = length (az (horizon (parseHorizonCsv payload st)))
   \<and> mset (zip (az (horizon (parseHorizonCsv payload st))) (alt (horizon (parseHorizonCsv payload st))))
        = mset (csv_rows (drop 1 (split_on CHR 0x0A payload)))
   \<and> (length (split_on CHR '','' row) < 3 \<longrightarrow>
        csv_rows (before @ row # after) = csv_rows (before @ after))
   \<and> (length (split_on CHR '','' row) \<ge> 3 \<longrightarrow>
        csv_rows (before @ row # after)
          = csv_rows before
            @ (parseFloat (split_on CHR '','' row ! 1), parseFloat (split_on CHR '','' row ! 2))
            # csv_rows after)
   \<and> ((\<forall>p\<in>set (csv_rows (drop 1 (split_on CHR 0x0A payload))). fst p \<noteq> NaN) \<longrightarrow>
        sorted_wrt (\<lambda>a b. \<not> js_lt b a) (az (horizon (parseHorizonCsv payload st))))
   \<and> ((\<forall>p\<in>set (csv_rows (drop 1 (split_on CHR 0x0A payload))). \<exists>a e. p = (Num a, Num e)) \<longrightarrow>
        (\<exists>azs alts. horizon (parseHorizonCsv payload st) = \<lparr>az = map Num azs, alt = map Num alts\<rparr>
            \<and> sorted azs \<and> length alts = length azs))"
proof -
  let ?rows = "csv_rows (drop 1 (split_on CHR 0x0A payload))"
  let ?c = "sort_by_az ?rows"
  let ?H = "horizon (parseHorizonCsv payload st)"
  have H: "?H = \<lparr>az = map fst ?c, alt = map snd ?c\<rparr>" by (rule horizon_parseHorizonCsv)
  have whole: "?H = horizon (parseHorizonCsv payload st')"
    by (simp add: horizon_parseHorizonCsv)
  have others: "satRecords (parseHorizonCsv payload st) = satRecords st
      \<and> planes (parseHorizonCsv payload st) = planes st"
    by (simp add: parseHorizonCsv_def Let_def)
  have header: "CHR 0x0A \<notin> set hdr \<and> CHR 0x0A \<notin> set hdr' \<longrightarrow>
        horizon (parseHorizonCsv (hdr @ CHR 0x0A # body) st)
          = horizon (parseHorizonCsv (hdr' @ CHR 0x0A # body) st)"
    by (simp add: horizon_parseHorizonCsv split_on_first_line)
  have len: "length (alt ?H) = length (az ?H)" by (simp add: H)
  have samples: "mset (zip (az ?H) (alt ?H)) = mset ?rows"
    by (simp add: H zip_map_fst_snd mset_sort_by_az)
  have short: "length (split_on CHR '','' row) < 3 \<longrightarrow>
        csv_rows (before @ row # after) = csv_rows (before @ after)"
    by (simp add: csv_rows_append)
  have kept: "length (split_on CHR '','' row) \<ge> 3 \<longrightarrow>
        csv_rows (before @ row # after)
          = csv_rows before
            @ (parseFloat (split_on CHR '','' row ! 1), parseFloat (split_on CHR '','' row ! 2))
            # csv_rows after"
    by (simp add: csv_rows_append)
  have sorted_js: "(\<forall>p\<in>set ?rows. fst p \<noteq> NaN) \<longrightarrow> sorted_wrt (\<lambda>a b. \<not> js_lt b a) (az ?H)"
    using sorted_sort_by_az[of ?rows] by (simp add: H sorted_wrt_map)
  have finite_profile: "(\<forall>p\<in>set ?rows. \<exists>a e. p = (Num a, Num e)) \<longrightarrow>
        (\<exists>azs alts. ?H = \<lparr>az = map Num azs, alt = map Num alts\<rparr>
            \<and> sorted azs \<and> length alts = length azs)"
  proof
    assume fin: "\<forall>p\<in>set ?rows. \<exists>a e. p = (Num a, Num e)"
    have same: "set ?c = set ?rows" using mset_sort_by_az[of ?rows] by (metis set_mset_mset)
    have "\<forall>x\<in>set (map fst ?c). \<exists>r. x = Num r" using fin same by auto
    then obtain azs where azs: "map fst ?c = map Num azs" using all_Num_map by blast
    have "\<forall>x\<in>set (map snd ?c). \<exists>r. x = Num r" using fin same by auto
    then obtain alts where alts: "map snd ?c = map Num alts" using all_Num_map by blast
    have azH: "az ?H = map Num azs" by (simp only: H azs profile.simps)
    have "\<forall>p\<in>set ?rows. fst p \<noteq> NaN" using fin by auto
    then have "sorted_wrt (\<lambda>a b. \<not> js_lt b a) (az ?H)"
      using sorted_js by blast
    then have "sorted_wrt (\<lambda>a b. \<not> js_lt b a) (map Num azs)"
      by (simp only: azH)
    then have s: "sorted azs" by (rule sorted_Num)
    have "length alts = length azs"
      using azs alts by (metis length_map)
    then show "\<exists>azs alts. ?H = \<lparr>az = map Num azs, alt = map Num alts\<rparr>
            \<and> sorted azs \<and> length alts = length azs"
      using s azs alts H by auto
  qed
  show ?thesis
    using whole others header len samples short kept sorted_js finite_profile by blast
qed


theorem parseHorizonCsv_profile_witness:
  "horizon (parseHorizonCsv
      (''bin,az,alt'' @ [CHR 0x0A] @ ''0,90,1.5'' @ [CHR 0x0A] @ ''bad'' @ [CHR 0x0A]
       @ ''1,0,2'' @ [CHR 0x0A] @ ''2,270.5,-1'' @ [CHR 0x0A])
      \<lparr>satRecords = ([] :: unit sat list), planes = [],
       horizon = \<lparr>az = [Num 5], alt = [Num 5]\<rparr>, plotInitialized = False\<rparr>)
     = \<lparr>az = [Num 0, Num 90, Num 270.5], alt = [Num 2, Num 1.5, Num (- 1)]\<rparr>
   \<and> sorted_wrt (\<lambda>a b. \<not> js_lt b a) [Num 0, Num 90, Num 270.5]
   \<and> sorted [0, 90, 270.5 :: real]
   \<and> csv_rows [''0,90,1.5'', ''bad'', ''1,0,2''] = csv_rows [''0,90,1.5'', ''1,0,2'']
   \<and> csv_rows [''0,90,1.5'', ''7,45,3,extra'', ''1,0,2'']
        = csv_rows [''0,90,1.5''] @ (Num 45, Num 3) # csv_rows [''1,0,2'']
   \<and> horizon (parseHorizonCsv (''bin,az,alt'' @ CHR 0x0A # ''0,90,1.5'')
        \<lparr>satRecords = ([] :: unit sat list), planes = [],
         horizon = \<lparr>az = [Num 5], alt = [Num 5]\<rparr>, plotInitialized = False\<rparr>)
      = horizon (parseHorizonCsv ([] @ CHR 0x0A # ''0,90,1.5'')
        \<lparr>satRecords = ([] :: unit sat list), planes = [],
         horizon = \<lparr>az = [Num 5], alt = [Num 5]\<rparr>, plotInitialized = False\<rparr>)"
proof -
  define X where "X = ''bin,az,alt'' @ [CHR 0x0A] @ ''0,90,1.5'' @ [CHR 0x0A] @ ''bad'' @ [CHR 0x0A]
       @ ''1,0,2'' @ [CHR 0x0A] @ ''2,270.5,-1'' @ [CHR 0x0A]"
  define ST where "ST = \<lparr>satRecords = ([] :: unit sat list), planes = [],
       horizon = \<lparr>az = [Num 5], alt = [Num 5]\<rparr>, plotInitialized = False\<rparr>"
  note T = parseHorizonCsv_profile[where payload = X and st = ST and st' = ST and hdr = "''bin,az,alt''"
      and hdr' = "[]" and body = "''0,90,1.5''" and row = "''bad''" and before = "[''0,90,1.5'']"
      and after = "[''1,0,2'']"]
  note K = parseHorizonCsv_profile[where payload = X and st = ST and st' = ST and hdr = "''bin,az,alt''"
      and hdr' = "[]" and body = "''0,90,1.5''" and row = "''7,45,3,extra''" and before = "[''0,90,1.5'']"
      and after = "[''1,0,2'']"]
  have rows: "csv_rows (drop 1 (split_on CHR 0x0A X)) = [(Num 90, Num 1.5), (Num 0, Num 2), (Num 270.5, Num (- 1))]"
    by (simp add: X_def parseFloat_def unsigned_literal_def is_ws_def is_digit_def
        digits_val_def exponent_part_def scale10_def Let_def)
  have H: "horizon (parseHorizonCsv X ST) = \<lparr>az = [Num 0, Num 90, Num 270.5], alt = [Num 2, Num 1.5, Num (- 1)]\<rparr>"
    by (simp only: horizon_parseHorizonCsv rows) (simp add: sort_by_az_def js_gt_def js_sub_def)
  have nn: "\<forall>p\<in>set (csv_rows (drop 1 (split_on CHR 0x0A X))). fst p \<noteq> NaN"
    by (simp only: rows) simp
  have fin: "\<forall>p\<in>set (csv_rows (drop 1 (split_on CHR 0x0A X))). \<exists>a e. p = (Num a, Num e)"
    by (simp only: rows list.set Ball_def insert_iff empty_iff) blast
  have "sorted_wrt (\<lambda>a b. \<not> js_lt b a) (az (horizon (parseHorizonCsv X ST)))"
    using T nn by blast
  then have w2: "sorted_wrt (\<lambda>a b. \<not> js_lt b a) [Num 0, Num 90, Num 270.5]"
    by (simp only: H profile.simps)
  obtain azs alts where p: "horizon (parseHorizonCsv X ST) = \<lparr>az = map Num azs, alt = map Num alts\<rparr>"
      "sorted azs" "length alts = length azs"
    using T fin by blast
  have "map Num azs = map Num [0, 90, 270.5]" using p(1) H by simp
  moreover have "inj Num" by (simp add: inj_def)
  ultimately have "azs = [0, 90, 270.5]" by (simp only: inj_map_eq_map)
  then have w2r: "sorted [0, 90, 270.5 :: real]" using p(2) by simp
  have "length (split_on CHR '','' ''bad'') < 3" by simp
  then have w3: "csv_rows [''0,90,1.5'', ''bad'', ''1,0,2''] = csv_rows [''0,90,1.5'', ''1,0,2'']"
    using T by simp
  have four: "split_on CHR '','' ''7,45,3,extra'' = [''7'', ''45'', ''3'', ''extra'']" by simp
  have pf: "parseFloat ''45'' = Num 45" "parseFloat ''3'' = Num 3"
    by (simp_all add: parseFloat_def unsigned_literal_def is_ws_def is_digit_def
        digits_val_def exponent_part_def scale10_def Let_def)
  have "csv_rows ([''0,90,1.5''] @ ''7,45,3,extra'' # [''1,0,2''])
        = csv_rows [''0,90,1.5''] @ (parseFloat (split_on CHR '','' ''7,45,3,extra'' ! 1),
            parseFloat (split_on CHR '','' ''7,45,3,extra'' ! 2)) # csv_rows [''1,0,2'']"
    using K by (simp only: four) simp
  then have w4: "csv_rows [''0,90,1.5'', ''7,45,3,extra'', ''1,0,2'']
        = csv_rows [''0,90,1.5''] @ (Num 45, Num 3) # csv_rows [''1,0,2'']"
    by (simp only: four) (simp add: pf)
  have nl: "CHR 0x0A \<notin> set ''bin,az,alt'' \<and> CHR 0x0A \<notin> set ([] :: string)" by simp
  have w5: "horizon (parseHorizonCsv (''bin,az,alt'' @ CHR 0x0A # ''0,90,1.5'') ST)
      = horizon (parseHorizonCsv ([] @ CHR 0x0A # ''0,90,1.5'') ST)"
    using T nl by blast
  show ?thesis using H w2 w2r w3 w4 w5 unfolding X_def ST_def by blast
qed

text \<open>
  A line with three fields of which the second and third are not numeric is kept: the
  profile then holds a sample whose azimuth and elevation are NaN.
\<close>

theorem unparseable_row_kept:
  "horizon (parseHorizonCsv (''bin,az,alt'' @ [CHR 0x0A] @ ''1,abc,def'')
      \<lparr>satRecords = ([] :: unit sat list), planes = [],
       horizon = \<lparr>az = [], alt = []\<rparr>, plotInitialized = False\<rparr>)
     = \<lparr>az = [NaN], alt = [NaN]\<rparr>"
  by (simp add: parseHorizonCsv_def sort_by_az_def parseFloat_def unsigned_literal_def is_ws_def
      is_digit_def Let_def)

end
